theory Spec2Isabelle
  imports Main "HOL-Library.AList"
begin

section \<open>Utils: arithmetic, strings and the classification predicates\<close>

text \<open>
  JavaScript's \<open>%\<close> is the truncated remainder: its sign follows the dividend.
  The cursors of the gallery and of the lightbox are JavaScript numbers holding
  integers; they are modelled as \<open>int\<close>.
\<close>

definition js_rem :: "int \<Rightarrow> int \<Rightarrow> int" where
  "js_rem a b = sgn a * (\<bar>a\<bar> mod \<bar>b\<bar>)"

text \<open>\<open>Utils.isLandscape\<close> and \<open>Utils.isPortrait\<close> (utils.js, 258--270).\<close>

definition isLandscape :: "int \<Rightarrow> int \<Rightarrow> bool" where
  "isLandscape w h = (w > h)"

definition isPortrait :: "int \<Rightarrow> int \<Rightarrow> bool" where
  "isPortrait w h = (h \<ge> w)"

text \<open>
  \<open>String.prototype.lastIndexOf\<close> for a one-character needle: the position of the
  last occurrence, \<open>-1\<close> when there is none.
\<close>

fun lastIndexOf_from :: "char \<Rightarrow> string \<Rightarrow> int \<Rightarrow> int \<Rightarrow> int" where
  "lastIndexOf_from c [] i found = found"
| "lastIndexOf_from c (x # xs) i found =
     lastIndexOf_from c xs (i + 1) (if x = c then i else found)"

definition lastIndexOf :: "string \<Rightarrow> char \<Rightarrow> int" where
  "lastIndexOf s c = lastIndexOf_from c s 0 (-1)"

text \<open>\<open>x >>> 0\<close>: the number read as an unsigned 32-bit integer.\<close>

definition toUint32 :: "int \<Rightarrow> int" where
  "toUint32 x = x mod 2 ^ 32"

text \<open>
  \<open>s.slice(start)\<close> for a start that is not negative: a start at or beyond the
  length gives the empty string.
\<close>

definition slice_from :: "string \<Rightarrow> int \<Rightarrow> string" where
  "slice_from s start = (if int (length s) \<le> start then [] else drop (nat start) s)"

text \<open>
  \<open>toLowerCase\<close> on the letters A to Z. No character outside ASCII lowers to a letter
  of an accepted extension, so the other characters are left as they are.
\<close>

definition lower_char :: "char \<Rightarrow> char" where
  "lower_char c =
     (case map_of (zip ''ABCDEFGHIJKLMNOPQRSTUVWXYZ'' ''abcdefghijklmnopqrstuvwxyz'') c of
        Some l \<Rightarrow> l
      | None \<Rightarrow> c)"

definition toLowerCase :: "string \<Rightarrow> string" where
  "toLowerCase s = map lower_char s"

text \<open>
  \<open>Utils.getFileExtension\<close> (utils.js, 277--279):
  \<^verbatim>\<open>filename.slice((filename.lastIndexOf('.') - 1 >>> 0) + 2).toLowerCase()\<close>
\<close>

definition getFileExtension :: "string \<Rightarrow> string" where
  "getFileExtension filename =
     toLowerCase (slice_from filename (toUint32 (lastIndexOf filename CHR ''.'' - 1) + 2))"

definition validExtensions :: "string list" where
  "validExtensions = [''jpg'', ''jpeg'', ''png'', ''webp'']"

section \<open>Data\<close>

text \<open>
  A wallpaper record, as \<open>Gallery.addWallpaper\<close> builds it (utils.js, 444--456).
  The fields \<open>id\<close>, \<open>size\<close> and \<open>type\<close> carry a suffix. Width and height are
  whatever number the decoder or the stored data gives; nothing checks their sign.
\<close>

record wallpaper =
  id_w :: string
  name :: string
  originalName :: string
  size_w :: nat
  width :: int
  height :: int
  type_w :: string
  thumbnail :: string
  url :: string
  uploadedAt :: string
  tags :: "string list"

text \<open>
  A \<open>File\<close> chosen by the user, together with what the browser answers for it: the
  dimensions \<open>Image.onload\<close> reports to \<open>Utils.getImageDimensions\<close> (\<open>None\<close> when
  \<open>onerror\<close> fires), the data URL \<open>Utils.generateThumbnail\<close> resolves to (\<open>None\<close> when it
  rejects), the object URL, the generated id and the time stamp.
\<close>

record upload =
  file_name :: string
  file_size :: nat
  file_type :: string
  image_dimensions :: "(int \<times> int) option"
  image_thumbnail :: "string option"
  object_url :: string
  generated_id :: string
  iso_time :: string

datatype error = CannotReadDimensions | CannotMakeThumbnail

text \<open>\<open>Utils.isImage\<close> (utils.js, 286--290).\<close>

definition isImage :: "upload \<Rightarrow> bool" where
  "isImage f = (getFileExtension (file_name f) \<in> set validExtensions)"

text \<open>
  \<open>Utils.getImageDimensions\<close> and \<open>Utils.generateThumbnail\<close> (utils.js, 63--126): the
  promise resolves with the browser's answer or rejects.
\<close>

definition getImageDimensions :: "upload \<Rightarrow> error + (int \<times> int)" where
  "getImageDimensions f =
     (case image_dimensions f of None \<Rightarrow> Inl CannotReadDimensions | Some d \<Rightarrow> Inr d)"

definition generateThumbnail :: "upload \<Rightarrow> error + string" where
  "generateThumbnail f =
     (case image_thumbnail f of None \<Rightarrow> Inl CannotMakeThumbnail | Some t \<Rightarrow> Inr t)"

section \<open>The state of the page\<close>

text \<open>
  Arrays are JavaScript objects: \<open>push\<close> changes one in place, \<open>filter\<close> makes a new
  one, and the lightbox keeps a reference to the array it was opened with. The store is
  the list of all arrays made so far; a reference is a position in it.
\<close>

type_synonym ref = nat

text \<open>A DOM element, as far as the scripts read it: its class list and \<open>data-index\<close>.\<close>

record element =
  classList :: "string list"
  data_index :: "int option"

text \<open>The text of the slide counter: the page's own, or \<open>a / b\<close> once the script wrote it.\<close>

datatype counter_text = Markup | Counter int nat

text \<open>
  The page. The markup is not part of the scripts, so which elements exist is a
  parameter: \<open>None\<close> and \<open>False\<close> stand for an element that \<open>Utils.$\<close> does not find.
  \<open>screen_inner\<close> and \<open>vertical_gallery\<close> hold the children of \<open>.screen-inner\<close> and of
  \<open>#vertical-gallery\<close>; slides and gallery items live only there. The images inside a
  slide or an item are left out.
\<close>

record page =
  screen_inner :: "element list option"
  vertical_gallery :: "element list option"
  gallery_nav :: bool
  slide_counter :: "counter_text option"
  play_btn :: bool
  loading :: "string list option"
  lightbox_node :: "string list option"
  lightbox_image_node :: bool
  body_overflow :: string

text \<open>The fields of \<open>Gallery\<close> (utils.js, 299--314). Timer ids are positive, hence truthy.\<close>

record gallery =
  wallpapers :: ref
  landscapeWallpapers :: ref
  portraitWallpapers :: ref
  currentSlideIndex :: int
  isPlaying :: bool
  slideInterval :: "nat option"
  slideDuration :: nat
  animationSettings :: "(string \<times> string) list"

text \<open>
  The fields of \<open>Lightbox\<close> (part_000, 6--14). \<open>lightbox_el\<close> and \<open>lightboxImage_el\<close>
  say whether the constructor found \<open>#lightbox\<close> and \<open>#lightbox-image\<close>.
\<close>

record lightbox =
  lightbox_el :: bool
  lightboxImage_el :: bool
  currentIndex :: int
  currentWallpapers :: ref
  isOpen :: bool

text \<open>What the scripts do to the outside, in order.\<close>

datatype event =
    ConsoleError string
  | ConsoleWarn string
  | SavedWallpapers
  | SavedSettings
  | RenderedGallery
  | ImageRequested string

text \<open>
  The whole state. \<open>stored_wallpapers\<close> and \<open>stored_settings\<close> are the two entries of
  \<open>localStorage\<close> the scripts use (\<open>json_wallpapers\<close>, \<open>json_animation_settings\<close>);
  \<open>storage_throws\<close> says that \<open>localStorage\<close> raises on access. \<open>intervals\<close> are the
  running \<open>setInterval\<close> timers that call \<open>nextSlide\<close>; \<open>cleanups\<close> are the pending
  800 ms clean-ups of \<open>transitionSlides\<close>, each with the position of its slide;
  \<open>nav_listeners\<close> counts the listeners \<open>initVerticalGalleryNav\<close> has added.
  One call runs to its end before the next: timers and image loads that finish later are
  recorded, not run.
\<close>

record world =
  arrays :: "wallpaper list list"
  gallery :: gallery
  lightbox :: lightbox
  currentSettings :: "(string \<times> string) list"
  page :: page
  stored_wallpapers :: "wallpaper list option"
  stored_settings :: "(string \<times> string) list option"
  storage_throws :: bool
  intervals :: "nat list"
  timer_seq :: nat
  cleanups :: "nat list"
  nav_listeners :: nat
  events :: "event list"

definition new_array :: "wallpaper list \<Rightarrow> world \<Rightarrow> world" where
  "new_array xs w = w\<lparr>arrays := arrays w @ [xs]\<rparr>"

definition push :: "ref \<Rightarrow> wallpaper \<Rightarrow> world \<Rightarrow> world" where
  "push r x w = w\<lparr>arrays := (arrays w)[r := arrays w ! r @ [x]]\<rparr>"

definition master :: "world \<Rightarrow> wallpaper list" where
  "master w = arrays w ! wallpapers (gallery w)"

definition landscapes :: "world \<Rightarrow> wallpaper list" where
  "landscapes w = arrays w ! landscapeWallpapers (gallery w)"

definition portraits :: "world \<Rightarrow> wallpaper list" where
  "portraits w = arrays w ! portraitWallpapers (gallery w)"

text \<open>\<open>Lightbox.getCurrentWallpapers\<close> (part_000, 182--184): the array behind the reference.\<close>

definition getCurrentWallpapers :: "world \<Rightarrow> wallpaper list" where
  "getCurrentWallpapers w = arrays w ! currentWallpapers (lightbox w)"

definition log_event :: "event \<Rightarrow> world \<Rightarrow> world" where
  "log_event e w = w\<lparr>events := events w @ [e]\<rparr>"

text \<open>\<open>classList.add\<close> and \<open>classList.remove\<close>.\<close>

definition class_add :: "string \<Rightarrow> string list \<Rightarrow> string list" where
  "class_add c cs = (if c \<in> set cs then cs else cs @ [c])"

definition class_remove :: "string list \<Rightarrow> string list \<Rightarrow> string list" where
  "class_remove rs cs = filter (\<lambda>c. c \<notin> set rs) cs"

text \<open>\<open>Utils.showLoading\<close> and \<open>Utils.hideLoading\<close> (utils.js, 235--250).\<close>

definition showLoading :: "world \<Rightarrow> world" where
  "showLoading w =
     (case loading (page w) of
        None \<Rightarrow> w
      | Some cs \<Rightarrow> w\<lparr>page := (page w)\<lparr>loading := Some (class_add ''active'' cs)\<rparr>\<rparr>)"

definition hideLoading :: "world \<Rightarrow> world" where
  "hideLoading w =
     (case loading (page w) of
        None \<Rightarrow> w
      | Some cs \<Rightarrow> w\<lparr>page := (page w)\<lparr>loading := Some (class_remove [''active''] cs)\<rparr>\<rparr>)"

section \<open>The storage gateway\<close>

text \<open>
  \<open>Utils.getFromJSON\<close> and \<open>Utils.saveToJSON\<close> over \<open>Utils.getFromStorage\<close> and
  \<open>Utils.saveToStorage\<close> (utils.js, 133--178), for each of the two entries. A raising
  \<open>localStorage\<close> is caught and logged: a read gives the default, a write is dropped.
  A stored value is what \<open>JSON.parse\<close> gives back for what \<open>JSON.stringify\<close> wrote.
\<close>

definition getFromJSON_wallpapers :: "wallpaper list \<Rightarrow> world \<Rightarrow> wallpaper list" where
  "getFromJSON_wallpapers defaultValue w =
     (if storage_throws w then defaultValue
      else (case stored_wallpapers w of None \<Rightarrow> defaultValue | Some d \<Rightarrow> d))"

definition getFromJSON_settings :: "world \<Rightarrow> (string \<times> string) list option" where
  "getFromJSON_settings w = (if storage_throws w then None else stored_settings w)"

definition getFromJSON_log :: "world \<Rightarrow> world" where
  "getFromJSON_log w =
     (if storage_throws w then log_event (ConsoleError ''getFromStorage'') w else w)"

definition saveToJSON_wallpapers :: "wallpaper list \<Rightarrow> world \<Rightarrow> world" where
  "saveToJSON_wallpapers d w =
     (if storage_throws w
      then log_event (ConsoleError ''saveToStorage'') (log_event SavedWallpapers w)
      else (log_event SavedWallpapers w)\<lparr>stored_wallpapers := Some d\<rparr>)"

definition saveToJSON_settings :: "(string \<times> string) list \<Rightarrow> world \<Rightarrow> world" where
  "saveToJSON_settings d w =
     (if storage_throws w
      then log_event (ConsoleError ''saveToStorage'') (log_event SavedSettings w)
      else (log_event SavedSettings w)\<lparr>stored_settings := Some d\<rparr>)"

text \<open>
  The object spread \<open>{ ...target, ...source }\<close>: the keys of the target keep their
  place and take the source's values, the source's other keys follow.
\<close>

definition spread :: "(string \<times> string) list \<Rightarrow> (string \<times> string) list \<Rightarrow> (string \<times> string) list" where
  "spread target source = fold (\<lambda>kv. AList.update (fst kv) (snd kv)) source target"

section \<open>Gallery\<close>

text \<open>\<open>Gallery.classifyWallpapers\<close> (utils.js, 359--367): two new arrays.\<close>

definition classifyWallpapers :: "world \<Rightarrow> world" where
  "classifyWallpapers w =
     (let l = length (arrays w);
          w1 = (new_array (filter (\<lambda>x. isLandscape (width x) (height x)) (master w)) w)
                 \<lparr>gallery := (gallery w)\<lparr>landscapeWallpapers := l\<rparr>\<rparr>;
          p = length (arrays w1)
      in (new_array (filter (\<lambda>x. isPortrait (width x) (height x)) (master w1)) w1)
           \<lparr>gallery := (gallery w1)\<lparr>portraitWallpapers := p\<rparr>\<rparr>)"

text \<open>\<open>Gallery.loadWallpapers\<close> and \<open>Gallery.saveWallpapers\<close> (utils.js, 333--344).\<close>

definition loadWallpapers :: "world \<Rightarrow> world" where
  "loadWallpapers w =
     (let savedWallpapers = getFromJSON_wallpapers [] w;
          w1 = getFromJSON_log w;
          r = length (arrays w1)
      in classifyWallpapers
           ((new_array savedWallpapers w1)\<lparr>gallery := (gallery w1)\<lparr>wallpapers := r\<rparr>\<rparr>))"

definition saveWallpapers :: "world \<Rightarrow> world" where
  "saveWallpapers w = saveToJSON_wallpapers (master w) w"

text \<open>\<open>Gallery.loadAnimationSettings\<close> (utils.js, 349--354).\<close>

definition loadAnimationSettings :: "world \<Rightarrow> world" where
  "loadAnimationSettings w =
     (let w1 = getFromJSON_log w in
      case getFromJSON_settings w of
        None \<Rightarrow> w1
      | Some savedSettings \<Rightarrow>
          w1\<lparr>gallery := (gallery w1)
                \<lparr>animationSettings := spread (animationSettings (gallery w1)) savedSettings\<rparr>\<rparr>)"

text \<open>\<open>Gallery.updateSlideCounter\<close> (utils.js, 825--830).\<close>

definition updateSlideCounter :: "world \<Rightarrow> world" where
  "updateSlideCounter w =
     (case slide_counter (page w) of
        None \<Rightarrow> w
      | Some t \<Rightarrow>
          w\<lparr>page := (page w)\<lparr>slide_counter :=
               Some (Counter (currentSlideIndex (gallery w) + 1) (length (landscapes w)))\<rparr>\<rparr>)"

text \<open>\<open>Gallery.renderLandscapeSlider\<close> (utils.js, 483--516).\<close>

definition empty_slide :: element where
  "empty_slide = \<lparr>classList = [''wallpaper-slide'', ''active''], data_index = None\<rparr>"

definition slide_element :: "nat \<Rightarrow> element" where
  "slide_element i =
     \<lparr>classList = (if i = 0 then [''wallpaper-slide'', ''active''] else [''wallpaper-slide'']),
      data_index = Some (int i)\<rparr>"

definition renderLandscapeSlider :: "world \<Rightarrow> world" where
  "renderLandscapeSlider w =
     (case screen_inner (page w) of
        None \<Rightarrow> w
      | Some old \<Rightarrow>
          if landscapes w = []
          then w\<lparr>page := (page w)\<lparr>screen_inner := Some [empty_slide]\<rparr>\<rparr>
          else w\<lparr>page := (page w)\<lparr>screen_inner :=
                      Some (map slide_element [0..<length (landscapes w)])\<rparr>,
                 gallery := (gallery w)\<lparr>currentSlideIndex := 0\<rparr>\<rparr>)"

text \<open>\<open>Gallery.initVerticalGalleryNav\<close> (utils.js, 571--592): one more set of listeners.\<close>

definition initVerticalGalleryNav :: "world \<Rightarrow> world" where
  "initVerticalGalleryNav w =
     (if vertical_gallery (page w) = None \<or> \<not> gallery_nav (page w) then w
      else w\<lparr>nav_listeners := Suc (nav_listeners w)\<rparr>)"

text \<open>\<open>Gallery.renderVerticalGallery\<close> (utils.js, 521--566).\<close>

definition empty_item :: element where
  "empty_item = \<lparr>classList = [''gallery-item'', ''active''], data_index = None\<rparr>"

definition item_element :: "nat \<Rightarrow> element" where
  "item_element i =
     \<lparr>classList = (if i = 0 then [''gallery-item'', ''active''] else [''gallery-item'']),
      data_index = Some (int i)\<rparr>"

definition renderVerticalGallery :: "world \<Rightarrow> world" where
  "renderVerticalGallery w =
     (case vertical_gallery (page w) of
        None \<Rightarrow> w
      | Some old \<Rightarrow>
          if portraits w = []
          then w\<lparr>page := (page w)\<lparr>vertical_gallery := Some [empty_item]\<rparr>\<rparr>
          else initVerticalGalleryNav
                 (w\<lparr>page := (page w)\<lparr>vertical_gallery :=
                        Some (map item_element [0..<length (portraits w)])\<rparr>\<rparr>))"

text \<open>\<open>Gallery.renderGallery\<close> (utils.js, 474--478).\<close>

definition renderGallery :: "world \<Rightarrow> world" where
  "renderGallery w =
     updateSlideCounter (renderVerticalGallery (renderLandscapeSlider (log_event RenderedGallery w)))"

text \<open>The eight style classes every transition clears.\<close>

definition animation_classes :: "string list" where
  "animation_classes =
     [''animation-fade'', ''animation-slide'', ''animation-zoom'', ''animation-rotate'',
      ''animation-flip'', ''animation-cube'', ''animation-bounce'', ''animation-wave'']"

text \<open>
  The class \<open>animation-${type}\<close> of a category; a category the settings lack prints
  as \<open>undefined\<close>.
\<close>

definition animation_class :: "(string \<times> string) list \<Rightarrow> string \<Rightarrow> string" where
  "animation_class settings category =
     ''animation-'' @ (case map_of settings category of Some a \<Rightarrow> a | None \<Rightarrow> ''undefined'')"

text \<open>The last gallery item that carries \<open>active\<close>, 0 when none does.\<close>

definition active_index :: "element list \<Rightarrow> nat" where
  "active_index els =
     fold (\<lambda>ie cur. if ''active'' \<in> set (classList (snd ie)) then fst ie else cur)
       (enumerate 0 els) 0"

text \<open>\<open>Gallery.updateVerticalGalleryItems\<close> (utils.js, 628--654).\<close>

definition band_item :: "(string \<times> string) list \<Rightarrow> int \<Rightarrow> int \<Rightarrow> nat \<times> element \<Rightarrow> element" where
  "band_item settings activeIndex n ie =
     (let cs = class_add (animation_class settings ''portrait'')
                 (class_remove ([''active'', ''prev'', ''next''] @ animation_classes)
                    (classList (snd ie)))
      in (snd ie)\<lparr>classList :=
           (if int (fst ie) = activeIndex then class_add ''active'' cs
            else if int (fst ie) = js_rem (activeIndex - 1 + n) n then class_add ''prev'' cs
            else if int (fst ie) = js_rem (activeIndex + 1) n then class_add ''next'' cs
            else cs)\<rparr>)"

definition updateVerticalGalleryItems :: "int \<Rightarrow> world \<Rightarrow> world" where
  "updateVerticalGalleryItems activeIndex w =
     (case vertical_gallery (page w) of
        None \<Rightarrow> w
      | Some galleryItems \<Rightarrow>
          if galleryItems = [] then w
          else w\<lparr>page := (page w)\<lparr>vertical_gallery :=
                 Some (map (band_item (animationSettings (gallery w)) activeIndex
                              (int (length galleryItems)))
                         (enumerate 0 galleryItems))\<rparr>\<rparr>)"

text \<open>\<open>Gallery.navigateVerticalGallery\<close> (utils.js, 598--622).\<close>

definition navigateVerticalGallery :: "int \<Rightarrow> world \<Rightarrow> world" where
  "navigateVerticalGallery direction w =
     (if portraits w = [] then w
      else case vertical_gallery (page w) of
        None \<Rightarrow> w
      | Some galleryItems \<Rightarrow>
          if galleryItems = [] then w
          else
            let newIndex = int (active_index galleryItems) + direction
            in updateVerticalGalleryItems
                 (if newIndex < 0 then int (length galleryItems) - 1
                  else if newIndex \<ge> int (length galleryItems) then 0
                  else newIndex) w)"

text \<open>
  \<open>Utils.$('.wallpaper-slide[data-index="i"]')\<close>: the position of the first slide with
  that index, if there is one.
\<close>

fun first_index :: "('a \<Rightarrow> bool) \<Rightarrow> 'a list \<Rightarrow> nat option" where
  "first_index P [] = None"
| "first_index P (x # xs) = (if P x then Some 0 else map_option Suc (first_index P xs))"

definition query_slide :: "int \<Rightarrow> world \<Rightarrow> nat option" where
  "query_slide i w =
     (case screen_inner (page w) of
        None \<Rightarrow> None
      | Some els \<Rightarrow>
          first_index (\<lambda>e. ''wallpaper-slide'' \<in> set (classList e) \<and> data_index e = Some i) els)"

text \<open>A change to the class list of the slide at a position.\<close>

definition on_slide :: "nat \<Rightarrow> (string list \<Rightarrow> string list) \<Rightarrow> world \<Rightarrow> world" where
  "on_slide i f w =
     (case screen_inner (page w) of
        None \<Rightarrow> w
      | Some els \<Rightarrow>
          w\<lparr>page := (page w)\<lparr>screen_inner :=
               Some (els[i := (els ! i)\<lparr>classList := f (classList (els ! i))\<rparr>])\<rparr>\<rparr>)"

text \<open>
  \<open>Gallery.transitionSlides\<close> (utils.js, 690--724). The two arguments may be the same
  element. The clean-up after 800 ms is recorded, not run.
\<close>

definition transitionSlides :: "nat option \<Rightarrow> nat option \<Rightarrow> string \<Rightarrow> world \<Rightarrow> world" where
  "transitionSlides currentSlide nextSlide direction w =
     (case currentSlide of
        None \<Rightarrow> w
      | Some c \<Rightarrow>
         (case nextSlide of
            None \<Rightarrow> w
          | Some n \<Rightarrow>
             (let a = animation_class (animationSettings (gallery w)) ''landscape'';
                  w1 = on_slide c (class_remove animation_classes) w;
                  w2 = on_slide n (class_remove animation_classes) w1;
                  w3 = on_slide c (class_add a) w2;
                  w4 = on_slide n (class_add a) w3;
                  w5 = on_slide n (class_add direction) w4;
                  w6 = on_slide n (class_add ''active'') w5;
                  w7 = on_slide c (class_remove [''active'']) w6;
                  w8 = on_slide c (class_add (if direction = ''prev'' then ''next'' else ''prev'')) w7;
                  w9 = on_slide n (class_remove [direction]) w8
              in w9\<lparr>cleanups := cleanups w9 @ [c]\<rparr>)))"

text \<open>\<open>Gallery.prevSlide\<close> and \<open>Gallery.nextSlide\<close> (utils.js, 659--682).\<close>

definition prevSlide :: "world \<Rightarrow> world" where
  "prevSlide w =
     (if length (landscapes w) = 0 then w
      else
        let currentSlide = query_slide (currentSlideIndex (gallery w)) w;
            w1 = w\<lparr>gallery := (gallery w)\<lparr>currentSlideIndex :=
                    js_rem (currentSlideIndex (gallery w) - 1 + int (length (landscapes w)))
                      (int (length (landscapes w)))\<rparr>\<rparr>;
            nextSlide = query_slide (currentSlideIndex (gallery w1)) w1
        in updateSlideCounter (transitionSlides currentSlide nextSlide ''prev'' w1))"

definition nextSlide :: "world \<Rightarrow> world" where
  "nextSlide w =
     (if length (landscapes w) = 0 then w
      else
        let currentSlide = query_slide (currentSlideIndex (gallery w)) w;
            w1 = w\<lparr>gallery := (gallery w)\<lparr>currentSlideIndex :=
                    js_rem (currentSlideIndex (gallery w) + 1) (int (length (landscapes w)))\<rparr>\<rparr>;
            nextSlide = query_slide (currentSlideIndex (gallery w1)) w1
        in updateSlideCounter (transitionSlides currentSlide nextSlide ''next'' w1))"

text \<open>\<open>Gallery.startSlideShow\<close> and \<open>Gallery.stopSlideShow\<close> (utils.js, 750--766).\<close>

definition startSlideShow :: "world \<Rightarrow> world" where
  "startSlideShow w =
     (case slideInterval (gallery w) of
        Some h \<Rightarrow> w
      | None \<Rightarrow>
          w\<lparr>timer_seq := Suc (timer_seq w),
            intervals := intervals w @ [Suc (timer_seq w)],
            gallery := (gallery w)\<lparr>slideInterval := Some (Suc (timer_seq w))\<rparr>\<rparr>)"

definition stopSlideShow :: "world \<Rightarrow> world" where
  "stopSlideShow w =
     (case slideInterval (gallery w) of
        Some h \<Rightarrow>
          w\<lparr>intervals := removeAll h (intervals w),
            gallery := (gallery w)\<lparr>slideInterval := None\<rparr>\<rparr>
      | None \<Rightarrow> w)"

text \<open>
  \<open>Gallery.togglePlay\<close> (utils.js, 729--745); the icon swap is left out, and the button
  is taken to have its \<open>svg\<close>.
\<close>

definition togglePlay :: "world \<Rightarrow> world" where
  "togglePlay w =
     (let w1 = w\<lparr>gallery := (gallery w)\<lparr>isPlaying := \<not> isPlaying (gallery w)\<rparr>\<rparr> in
      if play_btn (page w1)
      then (if isPlaying (gallery w1) then startSlideShow w1 else stopSlideShow w1)
      else w1)"

text \<open>A tick of a running slideshow timer calls \<open>nextSlide\<close> (utils.js, 753--755).\<close>

definition tick :: "nat \<Rightarrow> world \<Rightarrow> world" where
  "tick h w = (if h \<in> set (intervals w) then nextSlide w else w)"

text \<open>\<open>Gallery.handleKeyboardNavigation\<close> (utils.js, 836--849).\<close>

definition handleKeyboardNavigation :: "string \<Rightarrow> world \<Rightarrow> world" where
  "handleKeyboardNavigation k w =
     (if k = ''ArrowLeft'' then prevSlide w
      else if k = ''ArrowRight'' then nextSlide w
      else if k = '' '' then togglePlay w
      else w)"

text \<open>
  \<open>Gallery.addWallpaper\<close> (utils.js, 435--469): a rejected promise is logged and thrown
  again; the result says which.
\<close>

definition make_wallpaper :: "upload \<Rightarrow> int \<times> int \<Rightarrow> string \<Rightarrow> wallpaper" where
  "make_wallpaper f dimensions thumb =
     \<lparr>id_w = generated_id f, name = file_name f, originalName = file_name f,
      size_w = file_size f, width = fst dimensions, height = snd dimensions,
      type_w = file_type f, thumbnail = thumb, url = object_url f,
      uploadedAt = iso_time f, tags = []\<rparr>"

definition addWallpaper :: "upload \<Rightarrow> world \<Rightarrow> (error + wallpaper) \<times> world" where
  "addWallpaper f w =
     (case getImageDimensions f of
        Inl e \<Rightarrow> (Inl e, log_event (ConsoleError ''addWallpaper'') w)
      | Inr dimensions \<Rightarrow>
         (case generateThumbnail f of
            Inl e \<Rightarrow> (Inl e, log_event (ConsoleError ''addWallpaper'') w)
          | Inr thumb \<Rightarrow>
              (Inr (make_wallpaper f dimensions thumb),
               classifyWallpapers
                 (push (wallpapers (gallery w)) (make_wallpaper f dimensions thumb) w))))"

text \<open>
  The loop of \<open>Gallery.handleFileImport\<close> (utils.js, 412--416), inside its \<open>try\<close>: the
  first error thrown by \<open>addWallpaper\<close> leaves the loop.
\<close>

fun import_files :: "upload list \<Rightarrow> world \<Rightarrow> error option \<times> world" where
  "import_files [] w = (None, w)"
| "import_files (f # fs) w =
     (if isImage f
      then (case addWallpaper f w of
              (Inl e, w') \<Rightarrow> (Some e, w')
            | (Inr added, w') \<Rightarrow> import_files fs w')
      else import_files fs w)"

text \<open>
  \<open>Gallery.handleFileImport\<close> (utils.js, 404--429). Saving and rendering stand after
  the loop inside the same \<open>try\<close>; the \<open>catch\<close> logs; \<open>finally\<close> hides the loading mark.
  Resetting the file input is left out.
\<close>

definition handleFileImport :: "upload list \<Rightarrow> world \<Rightarrow> world" where
  "handleFileImport files w =
     (if length files = 0 then w
      else hideLoading
             (case import_files files (showLoading w) of
                (None, w') \<Rightarrow> renderGallery (saveWallpapers w')
              | (Some e, w') \<Rightarrow> log_event (ConsoleError ''handleFileImport'') w'))"

section \<open>Lightbox\<close>

text \<open>The \<open>detail\<close> of an \<open>openLightbox\<close> event (utils.js, 869--873).\<close>

record detail =
  index_d :: int
  type_d :: string
  wallpapers_d :: ref

text \<open>
  \<open>Lightbox.loadImage\<close> (part_000, 94--120), up to the point where the image request
  is sent; \<open>onload\<close> and \<open>onerror\<close> run later.
\<close>

definition loadImage :: "world \<Rightarrow> world" where
  "loadImage w =
     (if \<not> lightboxImage_el (lightbox w) \<or> length (getCurrentWallpapers w) = 0 then w
      else if currentIndex (lightbox w) < 0
              \<or> int (length (getCurrentWallpapers w)) \<le> currentIndex (lightbox w) then w
      else log_event
             (ImageRequested (url (getCurrentWallpapers w ! nat (currentIndex (lightbox w)))))
             (showLoading w))"

text \<open>\<open>Lightbox.open\<close> (part_000, 59--75).\<close>

definition Lightbox_open :: "detail \<Rightarrow> world \<Rightarrow> world" where
  "Lightbox_open d w =
     (if length (arrays w ! wallpapers_d d) = 0 then w
      else if \<not> lightbox_el (lightbox w) \<or> \<not> lightboxImage_el (lightbox w) then w
      else
        let w1 = w\<lparr>lightbox := (lightbox w)
                    \<lparr>currentIndex := (if index_d d = 0 then 0 else index_d d),
                     currentWallpapers := wallpapers_d d\<rparr>\<rparr>;
            w2 = w1\<lparr>page := (page w1)\<lparr>lightbox_node :=
                       map_option (class_add ''active'') (lightbox_node (page w1))\<rparr>,
                    lightbox := (lightbox w1)\<lparr>isOpen := True\<rparr>\<rparr>;
            w3 = loadImage w2
        in w3\<lparr>page := (page w3)\<lparr>body_overflow := ''hidden''\<rparr>\<rparr>)"

text \<open>\<open>Lightbox.close\<close> (part_000, 80--89).\<close>

definition Lightbox_close :: "world \<Rightarrow> world" where
  "Lightbox_close w =
     (if \<not> isOpen (lightbox w) then w
      else w\<lparr>page := (page w)\<lparr>lightbox_node :=
                  map_option (class_remove [''active'']) (lightbox_node (page w)),
                body_overflow := []\<rparr>,
             lightbox := (lightbox w)\<lparr>isOpen := False\<rparr>\<rparr>)"

text \<open>\<open>Lightbox.prev\<close> and \<open>Lightbox.next\<close> (part_000, 125--140).\<close>

definition Lightbox_prev :: "world \<Rightarrow> world" where
  "Lightbox_prev w =
     (if length (getCurrentWallpapers w) \<le> 1 then w
      else loadImage
             (w\<lparr>lightbox := (lightbox w)\<lparr>currentIndex :=
                  js_rem (currentIndex (lightbox w) - 1 + int (length (getCurrentWallpapers w)))
                    (int (length (getCurrentWallpapers w)))\<rparr>\<rparr>))"

definition Lightbox_next :: "world \<Rightarrow> world" where
  "Lightbox_next w =
     (if length (getCurrentWallpapers w) \<le> 1 then w
      else loadImage
             (w\<lparr>lightbox := (lightbox w)\<lparr>currentIndex :=
                  js_rem (currentIndex (lightbox w) + 1)
                    (int (length (getCurrentWallpapers w)))\<rparr>\<rparr>))"

text \<open>\<open>Lightbox.handleKeyboard\<close> (part_000, 146--160).\<close>

definition handleKeyboard :: "string \<Rightarrow> world \<Rightarrow> world" where
  "handleKeyboard k w =
     (if \<not> isOpen (lightbox w) then w
      else if k = ''Escape'' then Lightbox_close w
      else if k = ''ArrowLeft'' then Lightbox_prev w
      else if k = ''ArrowRight'' then Lightbox_next w
      else w)"

text \<open>
  \<open>Gallery.openLightbox\<close> (utils.js, 856--874). \<open>Utils.emit\<close> dispatches the event at
  once, and the lightbox's listener calls \<open>open\<close> with the detail.
\<close>

definition openLightbox :: "int \<Rightarrow> string \<Rightarrow> world \<Rightarrow> world" where
  "openLightbox index type w =
     (let r = (if type = ''landscape'' then landscapeWallpapers (gallery w)
               else portraitWallpapers (gallery w))
      in if length (arrays w ! r) = 0 then log_event (ConsoleWarn ''openLightbox'') w
         else Lightbox_open
                \<lparr>index_d = max 0 (min index (int (length (arrays w ! r)) - 1)),
                 type_d = type, wallpapers_d = r\<rparr> w)"

text \<open>A click on the gallery item with index \<open>i\<close> (utils.js, 557).\<close>

definition click_item :: "nat \<Rightarrow> world \<Rightarrow> world" where
  "click_item i w = openLightbox (int i) ''portrait'' w"

section \<open>AnimationManager\<close>

text \<open>
  The selection of \<open>AnimationManager\<close> (animations.js, 50--53, 75--87, 183--197); the
  option list and its previews are left out. \<open>selectAnimation\<close> takes the id the clicked
  option carries.
\<close>

definition default_settings :: "(string \<times> string) list" where
  "default_settings = [(''landscape'', ''slide''), (''portrait'', ''slide'')]"

definition loadSettings :: "world \<Rightarrow> world" where
  "loadSettings w =
     (let w1 = getFromJSON_log w in
      case getFromJSON_settings w of
        None \<Rightarrow> w1
      | Some savedSettings \<Rightarrow>
          w1\<lparr>currentSettings := spread (currentSettings w1) savedSettings\<rparr>)"

definition saveSettings :: "world \<Rightarrow> world" where
  "saveSettings w = saveToJSON_settings (currentSettings w) w"

definition selectAnimation :: "string \<Rightarrow> string \<Rightarrow> world \<Rightarrow> world" where
  "selectAnimation type animationId w =
     w\<lparr>currentSettings := AList.update type animationId (currentSettings w)\<rparr>"

definition new_AnimationManager :: "world \<Rightarrow> world" where
  "new_AnimationManager w = loadSettings (w\<lparr>currentSettings := default_settings\<rparr>)"

section \<open>App\<close>

text \<open>
  The constructors, in the order of \<open>App.initComponents\<close> (app.js, 28--48): the lightbox
  first, then the gallery, whose \<open>init\<close> loads, then renders (utils.js, 319--328).
\<close>

definition new_Lightbox :: "world \<Rightarrow> world" where
  "new_Lightbox w =
     (new_array [] w)
       \<lparr>lightbox :=
          \<lparr>lightbox_el = (lightbox_node (page w) \<noteq> None),
           lightboxImage_el = lightbox_image_node (page w),
           currentIndex = 0, currentWallpapers = length (arrays w), isOpen = False\<rparr>\<rparr>"

definition new_Gallery :: "world \<Rightarrow> world" where
  "new_Gallery w =
     renderGallery (loadAnimationSettings (loadWallpapers
       ((new_array [] (new_array [] (new_array [] w)))
          \<lparr>gallery :=
             \<lparr>wallpapers = length (arrays w),
              landscapeWallpapers = Suc (length (arrays w)),
              portraitWallpapers = Suc (Suc (length (arrays w))),
              currentSlideIndex = 0, isPlaying = False, slideInterval = None,
              slideDuration = 5000, animationSettings = default_settings\<rparr>\<rparr>)))"

definition initComponents :: "world \<Rightarrow> world" where
  "initComponents w = new_Gallery (new_Lightbox w)"

text \<open>
  A page that has just been loaded, before any script has run, with what \<open>localStorage\<close>
  holds; the objects are placeholders until the constructors run.
\<close>

definition fresh_page ::
  "page \<Rightarrow> wallpaper list option \<Rightarrow> (string \<times> string) list option \<Rightarrow> bool \<Rightarrow> world" where
  "fresh_page pg sw ss thr =
     \<lparr>arrays = [],
      gallery = \<lparr>wallpapers = 0, landscapeWallpapers = 0, portraitWallpapers = 0,
                 currentSlideIndex = 0, isPlaying = False, slideInterval = None,
                 slideDuration = 5000, animationSettings = default_settings\<rparr>,
      lightbox = \<lparr>lightbox_el = False, lightboxImage_el = False, currentIndex = 0,
                  currentWallpapers = 0, isOpen = False\<rparr>,
      currentSettings = default_settings,
      page = pg, stored_wallpapers = sw, stored_settings = ss, storage_throws = thr,
      intervals = [], timer_seq = 0, cleanups = [], nav_listeners = 0, events = []\<rparr>"

text \<open>
  A \<open>keydown\<close> on the document reaches every listener in the order of registration:
  the lightbox's (part_000, 47), the gallery's (utils.js, 391), then one listener for
  each run of \<open>initVerticalGalleryNav\<close> (utils.js, 585--591).
\<close>

definition vertical_keydown :: "string \<Rightarrow> world \<Rightarrow> world" where
  "vertical_keydown k w =
     (if k = ''ArrowUp'' then navigateVerticalGallery (- 1) w
      else if k = ''ArrowDown'' then navigateVerticalGallery 1 w
      else w)"

definition keydown :: "string \<Rightarrow> world \<Rightarrow> world" where
  "keydown k w =
     (vertical_keydown k ^^ nav_listeners w) (handleKeyboardNavigation k (handleKeyboard k w))"

section \<open>Histories and invariants\<close>

text \<open>The operations that change the collection.\<close>

datatype store_op = Load | Add upload | Import "upload list" | Classify | Save | Render

fun store_step :: "store_op \<Rightarrow> world \<Rightarrow> world" where
  "store_step Load w = loadWallpapers w"
| "store_step (Add f) w = snd (addWallpaper f w)"
| "store_step (Import fs) w = handleFileImport fs w"
| "store_step Classify w = classifyWallpapers w"
| "store_step Save w = saveWallpapers w"
| "store_step Render w = renderGallery w"

definition store_run :: "store_op list \<Rightarrow> world \<Rightarrow> world" where
  "store_run ops w = fold store_step ops w"

text \<open>The operations that touch the slideshow timer.\<close>

datatype play_op = Start | Stop | Toggle

fun play_step :: "play_op \<Rightarrow> world \<Rightarrow> world" where
  "play_step Start w = startSlideShow w"
| "play_step Stop w = stopSlideShow w"
| "play_step Toggle w = togglePlay w"

definition play_run :: "play_op list \<Rightarrow> world \<Rightarrow> world" where
  "play_run ops w = fold play_step ops w"

text \<open>
  Every reference points into the store, and the master array is reached through the
  gallery's \<open>wallpapers\<close> field only.
\<close>

definition refs_ok :: "world \<Rightarrow> bool" where
  "refs_ok w =
     (wallpapers (gallery w) < length (arrays w)
      \<and> landscapeWallpapers (gallery w) < length (arrays w)
      \<and> portraitWallpapers (gallery w) < length (arrays w)
      \<and> currentWallpapers (lightbox w) < length (arrays w)
      \<and> landscapeWallpapers (gallery w) \<noteq> wallpapers (gallery w)
      \<and> portraitWallpapers (gallery w) \<noteq> wallpapers (gallery w)
      \<and> currentWallpapers (lightbox w) \<noteq> wallpapers (gallery w))"

text \<open>The running timers are exactly the one the gallery holds, if it holds one.\<close>

definition timer_ok :: "world \<Rightarrow> bool" where
  "timer_ok w =
     (intervals w = (case slideInterval (gallery w) of None \<Rightarrow> [] | Some h \<Rightarrow> [h]))"

text \<open>
  Everything that can happen on the page once \<open>initComponents\<close> has run: the file input
  changes, a button or a gallery item is clicked, a key goes down, a slideshow timer
  fires, an animation option is chosen or saved. A click on a gallery arrow reaches every
  listener \<open>initVerticalGalleryNav\<close> has added (utils.js, 579--582).
\<close>

datatype action =
    FilesChosen "upload list"
  | ClickPrev
  | ClickNext
  | ClickPlay
  | TimerFires nat
  | ClickGalleryArrow int
  | ClickItem nat
  | KeyDown string
  | ClickLightboxPrev
  | ClickLightboxNext
  | ClickLightboxClose
  | ChooseAnimation string string
  | ClickSaveAnimations

fun step :: "action \<Rightarrow> world \<Rightarrow> world" where
  "step (FilesChosen fs) w = handleFileImport fs w"
| "step ClickPrev w = prevSlide w"
| "step ClickNext w = nextSlide w"
| "step ClickPlay w = togglePlay w"
| "step (TimerFires h) w = tick h w"
| "step (ClickGalleryArrow direction) w =
     (navigateVerticalGallery direction ^^ nav_listeners w) w"
| "step (ClickItem i) w = click_item i w"
| "step (KeyDown k) w = keydown k w"
| "step ClickLightboxPrev w = Lightbox_prev w"
| "step ClickLightboxNext w = Lightbox_next w"
| "step ClickLightboxClose w = Lightbox_close w"
| "step (ChooseAnimation type animationId) w = selectAnimation type animationId w"
| "step ClickSaveAnimations w = saveSettings w"

definition run :: "action list \<Rightarrow> world \<Rightarrow> world" where
  "run as w = fold step as w"

text \<open>Two states with the same references, and two with the same slideshow timer.\<close>

definition same_refs :: "world \<Rightarrow> world \<Rightarrow> bool" where
  "same_refs v w =
     (arrays v = arrays w
      \<and> wallpapers (gallery v) = wallpapers (gallery w)
      \<and> landscapeWallpapers (gallery v) = landscapeWallpapers (gallery w)
      \<and> portraitWallpapers (gallery v) = portraitWallpapers (gallery w)
      \<and> currentWallpapers (lightbox v) = currentWallpapers (lightbox w))"

definition same_timer :: "world \<Rightarrow> world \<Rightarrow> bool" where
  "same_timer v w =
     (intervals v = intervals w \<and> slideInterval (gallery v) = slideInterval (gallery w))"

text \<open>
  The record \<open>addWallpaper\<close> makes of an upload, when both promises resolve; an upload
  decodes when there is one.
\<close>

definition record_of :: "upload \<Rightarrow> wallpaper option" where
  "record_of f =
     (case image_dimensions f of
        None \<Rightarrow> None
      | Some d \<Rightarrow>
         (case image_thumbnail f of
            None \<Rightarrow> None
          | Some t \<Rightarrow> Some (make_wallpaper f d t)))"

definition decodes :: "upload \<Rightarrow> bool" where
  "decodes f = (record_of f \<noteq> None)"

text \<open>The records a list of uploads adds: those of the accepted uploads, in order.\<close>

definition records_of :: "upload list \<Rightarrow> wallpaper list" where
  "records_of fs = List.map_filter record_of (filter isImage fs)"

section \<open>Concrete pages\<close>

text \<open>
  A page with every element the scripts look for, an upload that decodes and one that
  does not, and the record \<open>addWallpaper\<close> makes of a decoded upload.
\<close>

definition full_page :: page where
  "full_page = \<lparr>screen_inner = Some [], vertical_gallery = Some [], gallery_nav = True,
     slide_counter = Some Markup, play_btn = True, loading = Some [''loading''],
     lightbox_node = Some [''lightbox''], lightbox_image_node = True, body_overflow = []\<rparr>"

definition photo :: "string \<Rightarrow> int \<Rightarrow> int \<Rightarrow> upload" where
  "photo n w h = \<lparr>file_name = n, file_size = 1000, file_type = ''image/jpeg'',
     image_dimensions = Some (w, h), image_thumbnail = Some (''thumb:'' @ n),
     object_url = ''blob:'' @ n, generated_id = ''id-'' @ n, iso_time = ''t''\<rparr>"

definition broken :: "string \<Rightarrow> upload" where
  "broken n = \<lparr>file_name = n, file_size = 1000, file_type = ''image/jpeg'',
     image_dimensions = None, image_thumbnail = None,
     object_url = ''blob:'' @ n, generated_id = ''id-'' @ n, iso_time = ''t''\<rparr>"

text \<open>The page after \<open>initComponents\<close>, with nothing stored.\<close>

definition w0 :: world where "w0 = initComponents (fresh_page full_page None None False)"

definition wp :: "string \<Rightarrow> int \<Rightarrow> int \<Rightarrow> wallpaper" where
  "wp n w h = make_wallpaper (photo n w h) (w, h) (''thumb:'' @ n)"

text \<open>The page after \<open>initComponents\<close>, with three stored wallpapers.\<close>

definition w3 :: world where
  "w3 = initComponents (fresh_page full_page (Some [wp ''a.jpg'' 800 600, wp ''b.jpg'' 600 800, wp ''c.jpg'' 1000 500]) None False)"

text \<open>The same page with the lightbox opened on the landscape list.\<close>

definition demo :: world where
  "demo = openLightbox 0 ''landscape'' w3"

text \<open>A page whose stored wallpapers include one of height zero and one of size zero.\<close>

definition w_odd :: world where
  "w_odd = initComponents (fresh_page full_page (Some [wp ''z.jpg'' 5 0, wp ''s.jpg'' 0 0]) None False)"

text \<open>The empty page with the slideshow playing.\<close>

definition w_playing :: world where
  "w_playing = togglePlay w0"

text \<open>The page after \<open>initComponents\<close>, with one stored landscape wallpaper.\<close>

definition w1 :: world where
  "w1 = initComponents (fresh_page full_page (Some [wp ''a.jpg'' 800 600]) None False)"

text \<open>
  A page without \<open>#lightbox\<close> and \<open>#lightbox-image\<close>, after \<open>initComponents\<close>, with one
  stored landscape wallpaper.
\<close>

definition bare_page :: page where
  "bare_page = full_page\<lparr>lightbox_node := None, lightbox_image_node := False\<rparr>"

definition w_bare :: world where
  "w_bare = initComponents (fresh_page bare_page (Some [wp ''a.jpg'' 800 600]) None False)"

section \<open>Arithmetic of the cursors\<close>

lemma js_rem_nonneg: "0 \<le> a \<Longrightarrow> 0 < b \<Longrightarrow> js_rem a b = a mod b"
  by (simp add: js_rem_def sgn_if)

lemma on_slide_frame [simp]:
  "arrays (on_slide i f w) = arrays w"
  "gallery (on_slide i f w) = gallery w"
  "lightbox (on_slide i f w) = lightbox w"
  "cleanups (on_slide i f w) = cleanups w"
  "intervals (on_slide i f w) = intervals w"
  "events (on_slide i f w) = events w"
  "nav_listeners (on_slide i f w) = nav_listeners w"
  by (simp_all add: on_slide_def split: option.splits)

lemma transitionSlides_frame [simp]:
  "arrays (transitionSlides a b d w) = arrays w"
  "gallery (transitionSlides a b d w) = gallery w"
  "lightbox (transitionSlides a b d w) = lightbox w"
  "intervals (transitionSlides a b d w) = intervals w"
  "events (transitionSlides a b d w) = events w"
  "nav_listeners (transitionSlides a b d w) = nav_listeners w"
  by (simp_all add: transitionSlides_def Let_def split: option.splits)

lemma updateSlideCounter_frame [simp]:
  "arrays (updateSlideCounter w) = arrays w"
  "gallery (updateSlideCounter w) = gallery w"
  "lightbox (updateSlideCounter w) = lightbox w"
  "intervals (updateSlideCounter w) = intervals w"
  "events (updateSlideCounter w) = events w"
  "nav_listeners (updateSlideCounter w) = nav_listeners w"
  by (simp_all add: updateSlideCounter_def split: option.splits)

lemma nextSlide_frame [simp]:
  "arrays (nextSlide w) = arrays w"
  "lightbox (nextSlide w) = lightbox w"
  "intervals (nextSlide w) = intervals w"
  "events (nextSlide w) = events w"
  "nav_listeners (nextSlide w) = nav_listeners w"
  by (simp_all add: nextSlide_def Let_def)

lemma prevSlide_frame [simp]:
  "arrays (prevSlide w) = arrays w"
  "lightbox (prevSlide w) = lightbox w"
  "intervals (prevSlide w) = intervals w"
  "events (prevSlide w) = events w"
  "nav_listeners (prevSlide w) = nav_listeners w"
  by (simp_all add: prevSlide_def Let_def)

lemma nextSlide_gallery:
  "gallery (nextSlide w) =
     (if length (landscapes w) = 0 then gallery w
      else (gallery w)\<lparr>currentSlideIndex :=
             js_rem (currentSlideIndex (gallery w) + 1) (int (length (landscapes w)))\<rparr>)"
  by (simp add: nextSlide_def Let_def)

lemma prevSlide_gallery:
  "gallery (prevSlide w) =
     (if length (landscapes w) = 0 then gallery w
      else (gallery w)\<lparr>currentSlideIndex :=
             js_rem (currentSlideIndex (gallery w) - 1 + int (length (landscapes w)))
               (int (length (landscapes w)))\<rparr>)"
  by (simp add: prevSlide_def Let_def)

lemma landscapes_nextSlide [simp]: "landscapes (nextSlide w) = landscapes w"
  by (simp add: landscapes_def nextSlide_gallery)

lemma landscapes_prevSlide [simp]: "landscapes (prevSlide w) = landscapes w"
  by (simp add: landscapes_def prevSlide_gallery)

lemma nextSlide_iterate:
  assumes "0 < length (landscapes w)" "0 \<le> currentSlideIndex (gallery w)"
    "currentSlideIndex (gallery w) < int (length (landscapes w))"
  shows "landscapes ((nextSlide ^^ k) w) = landscapes w \<and>
         currentSlideIndex (gallery ((nextSlide ^^ k) w)) =
           (currentSlideIndex (gallery w) + int k) mod int (length (landscapes w))"
proof (induction k)
  case 0
  from assms show ?case by simp
next
  case (Suc k)
  let ?v = "(nextSlide ^^ k) w"
  let ?n = "int (length (landscapes w))"
  from Suc have l: "landscapes ?v = landscapes w"
    and c: "currentSlideIndex (gallery ?v) = (currentSlideIndex (gallery w) + int k) mod ?n"
    by simp_all
  have pos: "0 < ?n" using assms(1) by simp
  have "0 \<le> (currentSlideIndex (gallery w) + int k) mod ?n" using pos by simp
  then have "js_rem ((currentSlideIndex (gallery w) + int k) mod ?n + 1) ?n
               = ((currentSlideIndex (gallery w) + int k) mod ?n + 1) mod ?n"
    using pos by (simp add: js_rem_nonneg)
  also have "\<dots> = (currentSlideIndex (gallery w) + int k + 1) mod ?n"
    by (rule mod_add_left_eq)
  finally show ?case using l c assms(1) by (simp add: nextSlide_gallery ac_simps)
qed

lemma loadImage_frame [simp]:
  "arrays (loadImage w) = arrays w"
  "gallery (loadImage w) = gallery w"
  "lightbox (loadImage w) = lightbox w"
  "intervals (loadImage w) = intervals w"
  "nav_listeners (loadImage w) = nav_listeners w"
  by (simp_all add: loadImage_def showLoading_def log_event_def split: option.splits)

lemma Lightbox_next_frame [simp]:
  "arrays (Lightbox_next w) = arrays w"
  "gallery (Lightbox_next w) = gallery w"
  "intervals (Lightbox_next w) = intervals w"
  "nav_listeners (Lightbox_next w) = nav_listeners w"
  by (simp_all add: Lightbox_next_def)

lemma Lightbox_prev_frame [simp]:
  "arrays (Lightbox_prev w) = arrays w"
  "gallery (Lightbox_prev w) = gallery w"
  "intervals (Lightbox_prev w) = intervals w"
  "nav_listeners (Lightbox_prev w) = nav_listeners w"
  by (simp_all add: Lightbox_prev_def)

lemma Lightbox_next_lightbox:
  "lightbox (Lightbox_next w) =
     (if length (getCurrentWallpapers w) \<le> 1 then lightbox w
      else (lightbox w)\<lparr>currentIndex :=
             js_rem (currentIndex (lightbox w) + 1) (int (length (getCurrentWallpapers w)))\<rparr>)"
  by (simp add: Lightbox_next_def)

lemma Lightbox_prev_lightbox:
  "lightbox (Lightbox_prev w) =
     (if length (getCurrentWallpapers w) \<le> 1 then lightbox w
      else (lightbox w)\<lparr>currentIndex :=
             js_rem (currentIndex (lightbox w) - 1 + int (length (getCurrentWallpapers w)))
               (int (length (getCurrentWallpapers w)))\<rparr>)"
  by (simp add: Lightbox_prev_def)

lemma pinned_Lightbox_next [simp]: "getCurrentWallpapers (Lightbox_next w) = getCurrentWallpapers w"
  by (simp add: getCurrentWallpapers_def Lightbox_next_lightbox)

lemma pinned_Lightbox_prev [simp]: "getCurrentWallpapers (Lightbox_prev w) = getCurrentWallpapers w"
  by (simp add: getCurrentWallpapers_def Lightbox_prev_lightbox)

lemma Lightbox_next_iterate:
  assumes "0 < length (getCurrentWallpapers w)" "0 \<le> currentIndex (lightbox w)"
    "currentIndex (lightbox w) < int (length (getCurrentWallpapers w))"
  shows "getCurrentWallpapers ((Lightbox_next ^^ k) w) = getCurrentWallpapers w \<and>
         currentIndex (lightbox ((Lightbox_next ^^ k) w)) =
           (currentIndex (lightbox w) + int k) mod int (length (getCurrentWallpapers w))"
proof (induction k)
  case 0
  from assms show ?case by simp
next
  case (Suc k)
  let ?v = "(Lightbox_next ^^ k) w"
  let ?n = "int (length (getCurrentWallpapers w))"
  from Suc have l: "getCurrentWallpapers ?v = getCurrentWallpapers w"
    and c: "currentIndex (lightbox ?v) = (currentIndex (lightbox w) + int k) mod ?n"
    by simp_all
  have pos: "0 < ?n" using assms(1) by simp
  show ?case
  proof (cases "length (getCurrentWallpapers w) \<le> 1")
    case True
    with assms(1) have "length (getCurrentWallpapers w) = 1" by linarith
    then show ?thesis using l c by (simp add: Lightbox_next_lightbox)
  next
    case False
    have "0 \<le> (currentIndex (lightbox w) + int k) mod ?n" using pos by simp
    then have "js_rem ((currentIndex (lightbox w) + int k) mod ?n + 1) ?n
                 = ((currentIndex (lightbox w) + int k) mod ?n + 1) mod ?n"
      using pos by (simp add: js_rem_nonneg)
    also have "\<dots> = (currentIndex (lightbox w) + int k + 1) mod ?n"
      by (rule mod_add_left_eq)
    finally show ?thesis using l c False by (simp add: Lightbox_next_lightbox ac_simps)
  qed
qed

lemma prev_after_next_arith:
  assumes "0 \<le> c" "c < n"
  shows "js_rem (js_rem (c + 1) n - 1 + n) n = c"
proof -
  have n: "0 < n" using assms by simp
  have a: "js_rem (c + 1) n = (c + 1) mod n" using assms n by (simp add: js_rem_nonneg)
  have b: "0 \<le> (c + 1) mod n - 1 + n" 
    using n pos_mod_sign[of n "c + 1"] by linarith
  show ?thesis
  proof (cases "c + 1 = n")
    case True
    then have "(c + 1) mod n = 0" by simp
    moreover have "js_rem (c + 1 - 1) (c + 1) = c"
      using assms by (simp add: js_rem_nonneg)
    ultimately show ?thesis using a True by simp
  next
    case False
    then have "(c + 1) mod n = c + 1" using assms by simp
    then show ?thesis using a b n assms by (simp add: js_rem_nonneg)
  qed
qed

section \<open>Classification\<close>

lemma classify_lists:
  assumes "wallpapers (gallery w) < length (arrays w)"
  shows "master (classifyWallpapers w) = master w"
    and "landscapes (classifyWallpapers w)
           = filter (\<lambda>x. isLandscape (width x) (height x)) (master w)"
    and "portraits (classifyWallpapers w)
           = filter (\<lambda>x. isPortrait (width x) (height x)) (master w)"
  using assms
  by (simp_all add: classifyWallpapers_def Let_def new_array_def master_def landscapes_def
        portraits_def nth_append)

lemma exactly_one: "isLandscape a b \<noteq> isPortrait a b"
  by (auto simp: isLandscape_def isPortrait_def)

lemma filter_split_length:
  "length (filter (\<lambda>x. isLandscape (width x) (height x)) xs)
   + length (filter (\<lambda>x. isPortrait (width x) (height x)) xs) = length xs"
  by (induction xs) (auto simp: isLandscape_def isPortrait_def)

lemma filter_split_disjoint:
  "set (filter (\<lambda>x. isLandscape (width x) (height x)) xs)
   \<inter> set (filter (\<lambda>x. isPortrait (width x) (height x)) xs) = {}"
  by (auto simp: isLandscape_def isPortrait_def)

lemma filter_split_distinct:
  "distinct (map id_w xs) \<Longrightarrow>
   distinct (map id_w (filter (\<lambda>x. isLandscape (width x) (height x)) xs
                       @ filter (\<lambda>x. isPortrait (width x) (height x)) xs))"
  by (induction xs) (auto simp: isLandscape_def isPortrait_def)

section \<open>What each operation leaves alone\<close>

lemma log_event_frame [simp]:
  "arrays (log_event e w) = arrays w"
  "gallery (log_event e w) = gallery w"
  "lightbox (log_event e w) = lightbox w"
  "page (log_event e w) = page w"
  "stored_wallpapers (log_event e w) = stored_wallpapers w"
  "stored_settings (log_event e w) = stored_settings w"
  "storage_throws (log_event e w) = storage_throws w"
  "currentSettings (log_event e w) = currentSettings w"
  "intervals (log_event e w) = intervals w"
  "nav_listeners (log_event e w) = nav_listeners w"
  "events (log_event e w) = events w @ [e]"
  by (simp_all add: log_event_def)

lemma showLoading_frame [simp]:
  "arrays (showLoading w) = arrays w"
  "gallery (showLoading w) = gallery w"
  "lightbox (showLoading w) = lightbox w"
  "stored_wallpapers (showLoading w) = stored_wallpapers w"
  "storage_throws (showLoading w) = storage_throws w"
  "intervals (showLoading w) = intervals w"
  "nav_listeners (showLoading w) = nav_listeners w"
  "events (showLoading w) = events w"
  by (simp_all add: showLoading_def split: option.splits)

lemma hideLoading_frame [simp]:
  "arrays (hideLoading w) = arrays w"
  "gallery (hideLoading w) = gallery w"
  "lightbox (hideLoading w) = lightbox w"
  "stored_wallpapers (hideLoading w) = stored_wallpapers w"
  "storage_throws (hideLoading w) = storage_throws w"
  "intervals (hideLoading w) = intervals w"
  "nav_listeners (hideLoading w) = nav_listeners w"
  "events (hideLoading w) = events w"
  by (simp_all add: hideLoading_def split: option.splits)

lemma saveWallpapers_frame [simp]:
  "arrays (saveWallpapers w) = arrays w"
  "gallery (saveWallpapers w) = gallery w"
  "lightbox (saveWallpapers w) = lightbox w"
  "storage_throws (saveWallpapers w) = storage_throws w"
  "intervals (saveWallpapers w) = intervals w"
  "nav_listeners (saveWallpapers w) = nav_listeners w"
  by (simp_all add: saveWallpapers_def saveToJSON_wallpapers_def)

lemma saveWallpapers_events:
  "events (saveWallpapers w)
     = events w @ SavedWallpapers # (if storage_throws w then [ConsoleError ''saveToStorage''] else [])"
  by (simp add: saveWallpapers_def saveToJSON_wallpapers_def)

lemma saveWallpapers_stored:
  "stored_wallpapers (saveWallpapers w)
     = (if storage_throws w then stored_wallpapers w else Some (master w))"
  by (simp add: saveWallpapers_def saveToJSON_wallpapers_def)

lemma renderLandscapeSlider_frame [simp]:
  "arrays (renderLandscapeSlider w) = arrays w"
  "lightbox (renderLandscapeSlider w) = lightbox w"
  "stored_wallpapers (renderLandscapeSlider w) = stored_wallpapers w"
  "storage_throws (renderLandscapeSlider w) = storage_throws w"
  "intervals (renderLandscapeSlider w) = intervals w"
  "events (renderLandscapeSlider w) = events w"
  "wallpapers (gallery (renderLandscapeSlider w)) = wallpapers (gallery w)"
  "landscapeWallpapers (gallery (renderLandscapeSlider w)) = landscapeWallpapers (gallery w)"
  "portraitWallpapers (gallery (renderLandscapeSlider w)) = portraitWallpapers (gallery w)"
  "slideInterval (gallery (renderLandscapeSlider w)) = slideInterval (gallery w)"
  by (simp_all add: renderLandscapeSlider_def split: option.splits)

lemma renderVerticalGallery_frame [simp]:
  "arrays (renderVerticalGallery w) = arrays w"
  "gallery (renderVerticalGallery w) = gallery w"
  "lightbox (renderVerticalGallery w) = lightbox w"
  "stored_wallpapers (renderVerticalGallery w) = stored_wallpapers w"
  "storage_throws (renderVerticalGallery w) = storage_throws w"
  "intervals (renderVerticalGallery w) = intervals w"
  "events (renderVerticalGallery w) = events w"
  by (simp_all add: renderVerticalGallery_def initVerticalGalleryNav_def split: option.splits)

lemma updateSlideCounter_frame2 [simp]:
  "stored_wallpapers (updateSlideCounter w) = stored_wallpapers w"
  "storage_throws (updateSlideCounter w) = storage_throws w"
  by (simp_all add: updateSlideCounter_def split: option.splits)

lemma renderGallery_frame [simp]:
  "arrays (renderGallery w) = arrays w"
  "lightbox (renderGallery w) = lightbox w"
  "stored_wallpapers (renderGallery w) = stored_wallpapers w"
  "storage_throws (renderGallery w) = storage_throws w"
  "intervals (renderGallery w) = intervals w"
  "events (renderGallery w) = events w @ [RenderedGallery]"
  "wallpapers (gallery (renderGallery w)) = wallpapers (gallery w)"
  "landscapeWallpapers (gallery (renderGallery w)) = landscapeWallpapers (gallery w)"
  "portraitWallpapers (gallery (renderGallery w)) = portraitWallpapers (gallery w)"
  "slideInterval (gallery (renderGallery w)) = slideInterval (gallery w)"
  by (simp_all add: renderGallery_def)

lemma classify_frame [simp]:
  "lightbox (classifyWallpapers w) = lightbox w"
  "events (classifyWallpapers w) = events w"
  "page (classifyWallpapers w) = page w"
  "stored_wallpapers (classifyWallpapers w) = stored_wallpapers w"
  "storage_throws (classifyWallpapers w) = storage_throws w"
  "intervals (classifyWallpapers w) = intervals w"
  "wallpapers (gallery (classifyWallpapers w)) = wallpapers (gallery w)"
  "landscapeWallpapers (gallery (classifyWallpapers w)) = length (arrays w)"
  "portraitWallpapers (gallery (classifyWallpapers w)) = Suc (length (arrays w))"
  "slideInterval (gallery (classifyWallpapers w)) = slideInterval (gallery w)"
  "length (arrays (classifyWallpapers w)) = Suc (Suc (length (arrays w)))"
  by (simp_all add: classifyWallpapers_def Let_def new_array_def)

lemma classify_old_arrays:
  "r < length (arrays w) \<Longrightarrow> arrays (classifyWallpapers w) ! r = arrays w ! r"
  by (simp add: classifyWallpapers_def Let_def new_array_def nth_append)

lemma push_frame [simp]:
  "gallery (push r x w) = gallery w"
  "lightbox (push r x w) = lightbox w"
  "events (push r x w) = events w"
  "page (push r x w) = page w"
  "stored_wallpapers (push r x w) = stored_wallpapers w"
  "storage_throws (push r x w) = storage_throws w"
  "intervals (push r x w) = intervals w"
  "length (arrays (push r x w)) = length (arrays w)"
  by (simp_all add: push_def)

lemma push_arrays:
  "r < length (arrays w) \<Longrightarrow> arrays (push r x w) ! r = arrays w ! r @ [x]"
  "r' \<noteq> r \<Longrightarrow> arrays (push r x w) ! r' = arrays w ! r'"
  by (simp_all add: push_def)

section \<open>Importing a batch\<close>

lemma addWallpaper_decoded:
  "record_of f = Some x \<Longrightarrow>
   addWallpaper f w = (Inr x, classifyWallpapers (push (wallpapers (gallery w)) x w))"
  by (auto simp: record_of_def addWallpaper_def getImageDimensions_def generateThumbnail_def
      split: option.splits)

lemma addWallpaper_failed:
  "record_of f = None \<Longrightarrow>
   \<exists>e. addWallpaper f w = (Inl e, log_event (ConsoleError ''addWallpaper'') w)"
  by (auto simp: record_of_def addWallpaper_def getImageDimensions_def generateThumbnail_def
      split: option.splits)

lemma master_after_add:
  assumes "wallpapers (gallery w) < length (arrays w)"
  shows "master (classifyWallpapers (push (wallpapers (gallery w)) x w)) = master w @ [x]"
proof -
  let ?v = "push (wallpapers (gallery w)) x w"
  have "wallpapers (gallery ?v) < length (arrays ?v)" using assms by simp
  then have "master (classifyWallpapers ?v) = master ?v" by (rule classify_lists(1))
  also have "\<dots> = master w @ [x]" using assms by (simp add: master_def push_arrays)
  finally show ?thesis .
qed

lemma records_of_simps [simp]:
  "records_of [] = []"
  "\<not> isImage f \<Longrightarrow> records_of (f # fs) = records_of fs"
  "isImage f \<Longrightarrow> record_of f = Some x \<Longrightarrow> records_of (f # fs) = x # records_of fs"
  by (simp_all add: records_of_def List.map_filter_simps)

lemma import_all_decode:
  assumes "\<forall>f \<in> set fs. isImage f \<longrightarrow> decodes f"
    and "wallpapers (gallery w) < length (arrays w)"
  shows "fst (import_files fs w) = None
       \<and> master (snd (import_files fs w)) = master w @ records_of fs
       \<and> events (snd (import_files fs w)) = events w
       \<and> stored_wallpapers (snd (import_files fs w)) = stored_wallpapers w
       \<and> storage_throws (snd (import_files fs w)) = storage_throws w
       \<and> lightbox (snd (import_files fs w)) = lightbox w
       \<and> wallpapers (gallery (snd (import_files fs w))) < length (arrays (snd (import_files fs w)))"
  using assms
proof (induction fs arbitrary: w)
  case Nil
  then show ?case by simp
next
  case (Cons f fs)
  show ?case
  proof (cases "isImage f")
    case False
    with Cons show ?thesis by simp
  next
    case True
    with Cons.prems obtain x where x: "record_of f = Some x" by (auto simp: decodes_def)
    let ?v = "classifyWallpapers (push (wallpapers (gallery w)) x w)"
    have step: "import_files (f # fs) w = import_files fs ?v"
      using True x by (simp add: addWallpaper_decoded)
    have ok: "wallpapers (gallery ?v) < length (arrays ?v)" using Cons.prems(2) by simp
    have m: "master ?v = master w @ [x]" using Cons.prems(2) by (rule master_after_add)
    from Cons.IH [of ?v] Cons.prems(1) ok
    show ?thesis unfolding step using m True x by simp
  qed
qed

lemma import_first_failure:
  assumes "\<forall>f \<in> set pre. isImage f \<longrightarrow> decodes f"
    and "isImage bad" and "\<not> decodes bad"
    and "wallpapers (gallery w) < length (arrays w)"
  shows "fst (import_files (pre @ bad # post) w) \<noteq> None
       \<and> master (snd (import_files (pre @ bad # post) w)) = master w @ records_of pre
       \<and> events (snd (import_files (pre @ bad # post) w))
           = events w @ [ConsoleError ''addWallpaper'']
       \<and> stored_wallpapers (snd (import_files (pre @ bad # post) w)) = stored_wallpapers w
       \<and> lightbox (snd (import_files (pre @ bad # post) w)) = lightbox w"
  using assms
proof (induction pre arbitrary: w)
  case Nil
  from Nil(3) have "record_of bad = None" by (simp add: decodes_def)
  then obtain e where "addWallpaper bad w = (Inl e, log_event (ConsoleError ''addWallpaper'') w)"
    using addWallpaper_failed by blast
  with Nil show ?case by (simp add: master_def)
next
  case (Cons f pre)
  show ?case
  proof (cases "isImage f")
    case False
    with Cons show ?thesis by simp
  next
    case True
    with Cons.prems obtain x where x: "record_of f = Some x" by (auto simp: decodes_def)
    let ?v = "classifyWallpapers (push (wallpapers (gallery w)) x w)"
    have step: "import_files ((f # pre) @ bad # post) w = import_files (pre @ bad # post) ?v"
      using True x by (simp add: addWallpaper_decoded)
    have ok: "wallpapers (gallery ?v) < length (arrays ?v)" using Cons.prems(4) by simp
    have m: "master ?v = master w @ [x]" using Cons.prems(4) by (rule master_after_add)
    from Cons.IH [of ?v] Cons.prems ok
    show ?thesis unfolding step using m True x by simp
  qed
qed

lemma master_frame:
  "arrays v = arrays w \<Longrightarrow> wallpapers (gallery v) = wallpapers (gallery w) \<Longrightarrow> master v = master w"
  by (simp add: master_def)

lemma handleFileImport_all:
  assumes "fs \<noteq> []" and "\<forall>f \<in> set fs. isImage f \<longrightarrow> decodes f"
    and "wallpapers (gallery w) < length (arrays w)"
  shows "master (handleFileImport fs w) = master w @ records_of fs"
    and "events (handleFileImport fs w)
          = events w @ SavedWallpapers
              # (if storage_throws w then [ConsoleError ''saveToStorage''] else [])
              @ [RenderedGallery]"
    and "stored_wallpapers (handleFileImport fs w)
          = (if storage_throws w then stored_wallpapers w else Some (master w @ records_of fs))"
proof -
  let ?s = "showLoading w"
  have ok: "wallpapers (gallery ?s) < length (arrays ?s)" using assms(3) by simp
  obtain v where r: "import_files fs ?s = (None, v)"
    using import_all_decode [OF assms(2) ok] by (cases "import_files fs ?s") auto
  from import_all_decode [OF assms(2) ok] r
  have v: "master v = master w @ records_of fs" "events v = events w"
    "stored_wallpapers v = stored_wallpapers w" "storage_throws v = storage_throws w"
    by (simp_all add: master_def)
  have h: "handleFileImport fs w = hideLoading (renderGallery (saveWallpapers v))"
    using assms(1) r by (simp add: handleFileImport_def)
  show "master (handleFileImport fs w) = master w @ records_of fs"
    unfolding h using v(1) by (simp add: master_def)
  show "events (handleFileImport fs w)
          = events w @ SavedWallpapers
              # (if storage_throws w then [ConsoleError ''saveToStorage''] else [])
              @ [RenderedGallery]"
    unfolding h using v by (simp add: saveWallpapers_events)
  show "stored_wallpapers (handleFileImport fs w)
          = (if storage_throws w then stored_wallpapers w else Some (master w @ records_of fs))"
    unfolding h using v by (simp add: saveWallpapers_stored)
qed

lemma handleFileImport_failure:
  assumes "\<forall>f \<in> set pre. isImage f \<longrightarrow> decodes f"
    and "isImage bad" and "\<not> decodes bad"
    and "wallpapers (gallery w) < length (arrays w)"
  shows "master (handleFileImport (pre @ bad # post) w) = master w @ records_of pre"
    and "events (handleFileImport (pre @ bad # post) w)
          = events w @ [ConsoleError ''addWallpaper'', ConsoleError ''handleFileImport'']"
    and "stored_wallpapers (handleFileImport (pre @ bad # post) w) = stored_wallpapers w"
proof -
  let ?s = "showLoading w"
  let ?fs = "pre @ bad # post"
  have ok: "wallpapers (gallery ?s) < length (arrays ?s)" using assms(4) by simp
  note f = import_first_failure [OF assms(1-3) ok, of post]
  then obtain e v where r: "import_files ?fs ?s = (Some e, v)"
    by (cases "import_files ?fs ?s") auto
  from f r have v: "master v = master w @ records_of pre"
    "events v = events w @ [ConsoleError ''addWallpaper'']"
    "stored_wallpapers v = stored_wallpapers w"
    by (simp_all add: master_def)
  have h: "handleFileImport ?fs w = hideLoading (log_event (ConsoleError ''handleFileImport'') v)"
    using r by (simp add: handleFileImport_def)
  show "master (handleFileImport ?fs w) = master w @ records_of pre"
    unfolding h using v(1) by (simp add: master_def)
  show "events (handleFileImport ?fs w)
          = events w @ [ConsoleError ''addWallpaper'', ConsoleError ''handleFileImport'']"
    unfolding h using v by simp
  show "stored_wallpapers (handleFileImport ?fs w) = stored_wallpapers w"
    unfolding h using v by simp
qed

section \<open>Facts about the concrete pages\<close>

lemma record_of_photo [simp]: "record_of (photo n w h) = Some (wp n w h)"
  by (simp add: record_of_def photo_def wp_def)

lemma decodes_photo [simp]: "decodes (photo n w h)"
  by (simp add: decodes_def)

lemma decodes_broken [simp]: "\<not> decodes (broken n)"
  by (simp add: decodes_def record_of_def broken_def)

lemma accepted_names:
  "isImage (photo ''a.jpg'' 800 600)"
  "isImage (broken ''b.png'')"
  "isImage (photo ''c.jpg'' 600 800)"
  by code_simp+

lemma w0_facts:
  "wallpapers (gallery w0) < length (arrays w0)"
  "master w0 = []"
  "events w0 = [RenderedGallery]"
  "stored_wallpapers w0 = None"
  "\<not> storage_throws w0"
  by code_simp+

section \<open>The lightbox under changes of the collection\<close>

lemma pinned_frame:
  "arrays v ! currentWallpapers (lightbox w) = arrays w ! currentWallpapers (lightbox w) \<Longrightarrow>
   lightbox v = lightbox w \<Longrightarrow> getCurrentWallpapers v = getCurrentWallpapers w"
  by (simp add: getCurrentWallpapers_def)

lemma classify_pins:
  assumes "wallpapers (gallery w) < length (arrays w)"
    and "currentWallpapers (lightbox w) < length (arrays w)"
    and "currentWallpapers (lightbox w) \<noteq> wallpapers (gallery w)"
  shows "refs_ok (classifyWallpapers w)"
    and "lightbox (classifyWallpapers w) = lightbox w"
    and "getCurrentWallpapers (classifyWallpapers w) = getCurrentWallpapers w"
  using assms by (simp_all add: refs_ok_def getCurrentWallpapers_def classify_old_arrays)

lemma push_pins:
  assumes "refs_ok w"
  shows "wallpapers (gallery (push (wallpapers (gallery w)) x w))
           < length (arrays (push (wallpapers (gallery w)) x w))"
    and "currentWallpapers (lightbox (push (wallpapers (gallery w)) x w))
           < length (arrays (push (wallpapers (gallery w)) x w))"
    and "currentWallpapers (lightbox (push (wallpapers (gallery w)) x w))
           \<noteq> wallpapers (gallery (push (wallpapers (gallery w)) x w))"
    and "getCurrentWallpapers (push (wallpapers (gallery w)) x w) = getCurrentWallpapers w"
  using assms by (simp_all add: refs_ok_def getCurrentWallpapers_def push_arrays)

lemma refs_ok_frame:
  "refs_ok w \<Longrightarrow> arrays v = arrays w \<Longrightarrow> lightbox v = lightbox w \<Longrightarrow>
   wallpapers (gallery v) = wallpapers (gallery w) \<Longrightarrow>
   landscapeWallpapers (gallery v) = landscapeWallpapers (gallery w) \<Longrightarrow>
   portraitWallpapers (gallery v) = portraitWallpapers (gallery w) \<Longrightarrow> refs_ok v"
  by (simp add: refs_ok_def)

lemma addWallpaper_pins:
  assumes "refs_ok w"
  shows "refs_ok (snd (addWallpaper f w))
       \<and> lightbox (snd (addWallpaper f w)) = lightbox w
       \<and> getCurrentWallpapers (snd (addWallpaper f w)) = getCurrentWallpapers w"
proof (cases "record_of f")
  case None
  then obtain e where "addWallpaper f w = (Inl e, log_event (ConsoleError ''addWallpaper'') w)"
    using addWallpaper_failed by blast
  then show ?thesis using assms by (simp add: refs_ok_def getCurrentWallpapers_def)
next
  case (Some x)
  let ?p = "push (wallpapers (gallery w)) x w"
  have a: "snd (addWallpaper f w) = classifyWallpapers ?p"
    using Some by (simp add: addWallpaper_decoded)
  note p = push_pins [OF assms, of x]
  show ?thesis unfolding a
    using classify_pins [OF p(1) p(2) p(3)] p(4) by simp
qed

lemma import_files_pins:
  assumes "refs_ok w"
  shows "refs_ok (snd (import_files fs w))
       \<and> lightbox (snd (import_files fs w)) = lightbox w
       \<and> getCurrentWallpapers (snd (import_files fs w)) = getCurrentWallpapers w"
  using assms
proof (induction fs arbitrary: w)
  case Nil
  then show ?case by simp
next
  case (Cons f fs)
  show ?case
  proof (cases "isImage f")
    case False
    with Cons show ?thesis by simp
  next
    case True
    note a = addWallpaper_pins [OF Cons.prems, of f]
    show ?thesis
    proof (cases "addWallpaper f w")
      case (Pair res v)
      with a have v: "refs_ok v" "lightbox v = lightbox w"
        "getCurrentWallpapers v = getCurrentWallpapers w" by simp_all
      show ?thesis
      proof (cases res)
        case (Inl e)
        with Pair True v show ?thesis by simp
      next
        case (Inr x)
        with Pair True have "import_files (f # fs) w = import_files fs v" by simp
        with Cons.IH [OF v(1)] v show ?thesis by simp
      qed
    qed
  qed
qed

lemma page_only_pins:
  assumes "refs_ok w" "arrays v = arrays w" "lightbox v = lightbox w"
    "wallpapers (gallery v) = wallpapers (gallery w)"
    "landscapeWallpapers (gallery v) = landscapeWallpapers (gallery w)"
    "portraitWallpapers (gallery v) = portraitWallpapers (gallery w)"
  shows "refs_ok v \<and> lightbox v = lightbox w \<and> getCurrentWallpapers v = getCurrentWallpapers w"
  using assms by (simp add: refs_ok_def getCurrentWallpapers_def)

lemma handleFileImport_pins:
  assumes "refs_ok w"
  shows "refs_ok (handleFileImport fs w)
       \<and> lightbox (handleFileImport fs w) = lightbox w
       \<and> getCurrentWallpapers (handleFileImport fs w) = getCurrentWallpapers w"
proof (cases "length fs = 0")
  case True
  then show ?thesis using assms by (simp add: handleFileImport_def)
next
  case False
  let ?s = "showLoading w"
  have s: "refs_ok ?s \<and> lightbox ?s = lightbox w \<and> getCurrentWallpapers ?s = getCurrentWallpapers w"
    using assms by (intro page_only_pins) simp_all
  then have "refs_ok ?s" by simp
  note i = import_files_pins [OF this, of fs]
  show ?thesis
  proof (cases "import_files fs ?s")
    case (Pair res v)
    with i s have v: "refs_ok v \<and> lightbox v = lightbox w
        \<and> getCurrentWallpapers v = getCurrentWallpapers w" by simp
    then have rv: "refs_ok v" by simp
    show ?thesis
    proof (cases res)
      case None
      let ?r = "hideLoading (renderGallery (saveWallpapers v))"
      have "handleFileImport fs w = ?r"
        using False Pair None by (simp add: handleFileImport_def)
      moreover have "refs_ok ?r \<and> lightbox ?r = lightbox v
          \<and> getCurrentWallpapers ?r = getCurrentWallpapers v"
        using rv by (intro page_only_pins) simp_all
      ultimately show ?thesis using v by simp
    next
      case (Some e)
      let ?r = "hideLoading (log_event (ConsoleError ''handleFileImport'') v)"
      have "handleFileImport fs w = ?r"
        using False Pair Some by (simp add: handleFileImport_def)
      moreover have "refs_ok ?r \<and> lightbox ?r = lightbox v
          \<and> getCurrentWallpapers ?r = getCurrentWallpapers v"
        using rv by (intro page_only_pins) simp_all
      ultimately show ?thesis using v by simp
    qed
  qed
qed

lemma loadWallpapers_pins:
  assumes "refs_ok w"
  shows "refs_ok (loadWallpapers w)
       \<and> lightbox (loadWallpapers w) = lightbox w
       \<and> getCurrentWallpapers (loadWallpapers w) = getCurrentWallpapers w"
proof -
  let ?l = "getFromJSON_log w"
  let ?n = "(new_array (getFromJSON_wallpapers [] w) ?l)\<lparr>gallery := (gallery ?l)\<lparr>wallpapers := length (arrays ?l)\<rparr>\<rparr>"
  have l: "arrays ?l = arrays w" "lightbox ?l = lightbox w"
    by (simp_all add: getFromJSON_log_def)
  have n: "wallpapers (gallery ?n) < length (arrays ?n)"
    "currentWallpapers (lightbox ?n) < length (arrays ?n)"
    "currentWallpapers (lightbox ?n) \<noteq> wallpapers (gallery ?n)"
    "getCurrentWallpapers ?n = getCurrentWallpapers w"
    "lightbox ?n = lightbox w"
    using assms l by (simp_all add: new_array_def refs_ok_def getCurrentWallpapers_def nth_append)
  have "loadWallpapers w = classifyWallpapers ?n"
    by (simp add: loadWallpapers_def Let_def)
  then show ?thesis using classify_pins [OF n(1) n(2) n(3)] n(4) n(5) by simp
qed

lemma store_step_pins:
  assumes "refs_ok w"
  shows "refs_ok (store_step op w)
       \<and> lightbox (store_step op w) = lightbox w
       \<and> getCurrentWallpapers (store_step op w) = getCurrentWallpapers w"
proof (cases op)
  case Load
  then show ?thesis using loadWallpapers_pins [OF assms] by simp
next
  case (Add f)
  then show ?thesis using addWallpaper_pins [OF assms] by simp
next
  case (Import fs)
  then show ?thesis using handleFileImport_pins [OF assms] by simp
next
  case Classify
  then show ?thesis using classify_pins [of w] assms by (simp add: refs_ok_def)
next
  case Save
  have "refs_ok (saveWallpapers w) \<and> lightbox (saveWallpapers w) = lightbox w
      \<and> getCurrentWallpapers (saveWallpapers w) = getCurrentWallpapers w"
    using assms by (intro page_only_pins) simp_all
  with Save show ?thesis by simp
next
  case Render
  have "refs_ok (renderGallery w) \<and> lightbox (renderGallery w) = lightbox w
      \<and> getCurrentWallpapers (renderGallery w) = getCurrentWallpapers w"
    using assms by (intro page_only_pins) simp_all
  with Render show ?thesis by simp
qed

lemma store_run_pins:
  assumes "refs_ok w"
  shows "refs_ok (store_run ops w)
       \<and> lightbox (store_run ops w) = lightbox w
       \<and> getCurrentWallpapers (store_run ops w) = getCurrentWallpapers w"
  using assms
proof (induction ops arbitrary: w)
  case Nil
  then show ?case by (simp add: store_run_def)
next
  case (Cons op ops)
  note s = store_step_pins [OF Cons.prems, of op]
  then have "refs_ok (store_step op w)" by simp
  from Cons.IH [OF this] s show ?case by (simp add: store_run_def)
qed

section \<open>Opening the lightbox\<close>

lemma Lightbox_open_opened:
  assumes "length (arrays w ! wallpapers_d d) \<noteq> 0"
    and "lightbox_el (lightbox w)" and "lightboxImage_el (lightbox w)"
  shows "lightbox (Lightbox_open d w)
           = (lightbox w)\<lparr>currentIndex := index_d d, currentWallpapers := wallpapers_d d,
                           isOpen := True\<rparr>"
    and "arrays (Lightbox_open d w) = arrays w"
    and "gallery (Lightbox_open d w) = gallery w"
  using assms by (simp_all add: Lightbox_open_def Let_def)

lemma Lightbox_open_rejected:
  "length (arrays w ! wallpapers_d d) = 0 \<or> \<not> lightbox_el (lightbox w)
     \<or> \<not> lightboxImage_el (lightbox w) \<Longrightarrow> Lightbox_open d w = w"
  by (auto simp: Lightbox_open_def)

lemma Lightbox_open_frame [simp]:
  "arrays (Lightbox_open d w) = arrays w"
  "gallery (Lightbox_open d w) = gallery w"
  "intervals (Lightbox_open d w) = intervals w"
  by (simp_all add: Lightbox_open_def Let_def)

lemma openLightbox_frame [simp]:
  "arrays (openLightbox i ty w) = arrays w"
  "gallery (openLightbox i ty w) = gallery w"
  "intervals (openLightbox i ty w) = intervals w"
  by (simp_all add: openLightbox_def Let_def)

lemma openLightbox_opened:
  assumes "r = (if ty = ''landscape'' then landscapeWallpapers (gallery w)
                else portraitWallpapers (gallery w))"
    and "arrays w ! r \<noteq> []"
    and "lightbox_el (lightbox w)" and "lightboxImage_el (lightbox w)"
  shows "lightbox (openLightbox i ty w)
           = (lightbox w)\<lparr>currentIndex := max 0 (min i (int (length (arrays w ! r)) - 1)),
                           currentWallpapers := r, isOpen := True\<rparr>"
  using assms by (simp add: openLightbox_def Let_def Lightbox_open_opened)

lemma openLightbox_current:
  "currentWallpapers (lightbox (openLightbox i ty w))
     \<in> {currentWallpapers (lightbox w), landscapeWallpapers (gallery w),
         portraitWallpapers (gallery w)}"
  by (simp add: openLightbox_def Let_def Lightbox_open_def)

lemma refs_ok_openLightbox: "refs_ok w \<Longrightarrow> refs_ok (openLightbox i ty w)"
  using openLightbox_current [of i ty w] by (auto simp: refs_ok_def)

lemma refs_ok_initComponents: "refs_ok (initComponents (fresh_page pg sw ss thr))"
proof -
  let ?f = "fresh_page pg sw ss thr"
  let ?g = "(new_array [] (new_array [] (new_array [] (new_Lightbox ?f))))
          \<lparr>gallery :=
             \<lparr>wallpapers = length (arrays (new_Lightbox ?f)),
              landscapeWallpapers = Suc (length (arrays (new_Lightbox ?f))),
              portraitWallpapers = Suc (Suc (length (arrays (new_Lightbox ?f)))),
              currentSlideIndex = 0, isPlaying = False, slideInterval = None,
              slideDuration = 5000, animationSettings = default_settings\<rparr>\<rparr>"
  have g: "refs_ok ?g"
    by (simp add: refs_ok_def new_array_def new_Lightbox_def fresh_page_def)
  let ?l = "loadWallpapers ?g"
  have l: "refs_ok ?l" using loadWallpapers_pins [OF g] by simp
  let ?a = "loadAnimationSettings ?l"
  have "refs_ok ?a"
    using l by (rule refs_ok_frame)
      (simp_all add: loadAnimationSettings_def getFromJSON_log_def Let_def split: option.splits)
  then have "refs_ok (renderGallery ?a)"
    by (rule refs_ok_frame) simp_all
  then show ?thesis by (simp add: initComponents_def new_Gallery_def)
qed

section \<open>The slideshow timer\<close>

lemma stop_twice: "stopSlideShow (stopSlideShow w) = stopSlideShow w"
  by (simp add: stopSlideShow_def split: option.splits)

lemma stop_clears: "slideInterval (gallery (stopSlideShow w)) = None"
  by (simp add: stopSlideShow_def split: option.splits)

lemma stop_no_timer: "timer_ok w \<Longrightarrow> intervals (stopSlideShow w) = []"
  by (auto simp: stopSlideShow_def timer_ok_def split: option.splits)

lemma timer_ok_start: "timer_ok w \<Longrightarrow> timer_ok (startSlideShow w)"
  by (auto simp: startSlideShow_def timer_ok_def split: option.splits)

lemma timer_ok_stop: "timer_ok w \<Longrightarrow> timer_ok (stopSlideShow w)"
  by (auto simp: stopSlideShow_def timer_ok_def split: option.splits)

lemma timer_ok_playing:
  "timer_ok w \<Longrightarrow> timer_ok (w\<lparr>gallery := (gallery w)\<lparr>isPlaying := b\<rparr>\<rparr>)"
  by (simp add: timer_ok_def)

lemma timer_ok_toggle: "timer_ok w \<Longrightarrow> timer_ok (togglePlay w)"
  by (simp add: togglePlay_def Let_def timer_ok_start timer_ok_stop timer_ok_playing)

lemma timer_ok_play_step: "timer_ok w \<Longrightarrow> timer_ok (play_step op w)"
  by (cases op) (simp_all add: timer_ok_start timer_ok_stop timer_ok_toggle)

lemma timer_ok_play_run: "timer_ok w \<Longrightarrow> timer_ok (play_run ops w)"
proof (induction ops arbitrary: w)
  case Nil
  then show ?case by (simp add: play_run_def)
next
  case (Cons op ops)
  from Cons.IH [OF timer_ok_play_step [OF Cons.prems, of op]]
  show ?case by (simp add: play_run_def)
qed

lemma timer_ok_at_most_one: "timer_ok w \<Longrightarrow> length (intervals w) \<le> 1"
  by (simp add: timer_ok_def split: option.splits)

lemma timer_ok_initComponents: "timer_ok (initComponents (fresh_page pg sw ss thr))"
proof -
  have "intervals (initComponents (fresh_page pg sw ss thr)) = []"
    by (simp add: initComponents_def new_Gallery_def loadAnimationSettings_def
        getFromJSON_log_def loadWallpapers_def Let_def new_array_def new_Lightbox_def
        fresh_page_def split: option.splits)
  moreover have "slideInterval (gallery (initComponents (fresh_page pg sw ss thr))) = None"
    by (simp add: initComponents_def new_Gallery_def loadAnimationSettings_def
        getFromJSON_log_def loadWallpapers_def Let_def new_array_def new_Lightbox_def
        fresh_page_def split: option.splits)
  ultimately show ?thesis by (simp add: timer_ok_def)
qed

section \<open>Animation settings\<close>

lemma new_AnimationManager_defaults:
  "stored_settings w = None \<or> storage_throws w \<Longrightarrow>
   currentSettings (new_AnimationManager w) = default_settings"
  by (auto simp: new_AnimationManager_def loadSettings_def getFromJSON_settings_def
      getFromJSON_log_def Let_def log_event_def split: option.splits)

lemma new_AnimationManager_frame [simp]:
  "stored_settings (new_AnimationManager w) = stored_settings w"
  "storage_throws (new_AnimationManager w) = storage_throws w"
  by (simp_all add: new_AnimationManager_def loadSettings_def getFromJSON_settings_def
      getFromJSON_log_def Let_def log_event_def split: option.splits)

lemma new_AnimationManager_stored:
  "\<not> storage_throws w \<Longrightarrow> stored_settings w = Some s \<Longrightarrow>
   currentSettings (new_AnimationManager w) = spread default_settings s"
  by (simp add: new_AnimationManager_def loadSettings_def getFromJSON_settings_def
      getFromJSON_log_def Let_def)

lemma selectAnimation_frame [simp]:
  "stored_settings (selectAnimation ty a w) = stored_settings w"
  "storage_throws (selectAnimation ty a w) = storage_throws w"
  "currentSettings (selectAnimation ty a w) = AList.update ty a (currentSettings w)"
  by (simp_all add: selectAnimation_def)

lemma saveSettings_stored:
  "\<not> storage_throws w \<Longrightarrow> stored_settings (saveSettings w) = Some (currentSettings w)"
  "storage_throws (saveSettings w) = storage_throws w"
  by (simp_all add: saveSettings_def saveToJSON_settings_def)

lemma spread_zoom:
  "spread default_settings [(''landscape'', ''zoom''), (''portrait'', ''slide'')]
     = [(''landscape'', ''zoom''), (''portrait'', ''slide'')]"
  by (simp add: spread_def default_settings_def)

lemma select_zoom:
  "AList.update ''landscape'' ''zoom'' default_settings
     = [(''landscape'', ''zoom''), (''portrait'', ''slide'')]"
  by (simp add: default_settings_def)

section \<open>Opening: clamping and rejection\<close>

lemma clamp_in_range:
  "0 < n \<Longrightarrow> 0 \<le> max 0 (min i (n - 1)) \<and> max 0 (min i (n - 1)) < (n::int)"
  by auto

lemma openLightbox_empty:
  assumes "arrays w ! (if ty = ''landscape'' then landscapeWallpapers (gallery w)
                      else portraitWallpapers (gallery w)) = []"
  shows "openLightbox i ty w = log_event (ConsoleWarn ''openLightbox'') w"
  using assms by (simp add: openLightbox_def Let_def)

section \<open>Short lists and the arrow keys\<close>

lemma short_list_noops:
  "length (getCurrentWallpapers w) \<le> 1 \<Longrightarrow> Lightbox_next w = w"
  "length (getCurrentWallpapers w) \<le> 1 \<Longrightarrow> Lightbox_prev w = w"
  "landscapes w = [] \<Longrightarrow> nextSlide w = w"
  "landscapes w = [] \<Longrightarrow> prevSlide w = w"
  "portraits w = [] \<Longrightarrow> navigateVerticalGallery direction w = w"
  "arrays w ! wallpapers_d d = [] \<Longrightarrow> Lightbox_open d w = w"
  by (simp_all add: Lightbox_next_def Lightbox_prev_def nextSlide_def prevSlide_def
      navigateVerticalGallery_def Lightbox_open_def)

lemma cursor_moves:
  assumes "2 \<le> n" "0 \<le> c" "c < n"
  shows "js_rem (c + 1) n \<noteq> c" and "js_rem (c - 1 + n) n \<noteq> c"
proof -
  have n: "0 < n" using assms by simp
  have a: "js_rem (c + 1) n = (c + 1) mod n" using assms n by (simp add: js_rem_nonneg)
  show "js_rem (c + 1) n \<noteq> c"
  proof (cases "c + 1 = n")
    case True
    then show ?thesis using a assms by simp
  next
    case False
    then have "(c + 1) mod n = c + 1" using assms by simp
    then show ?thesis using a by simp
  qed
  have b: "js_rem (c - 1 + n) n = (c - 1 + n) mod n" using assms n by (simp add: js_rem_nonneg)
  show "js_rem (c - 1 + n) n \<noteq> c"
  proof (cases "c = 0")
    case True
    then have "c - 1 + n = n - 1" by simp
    then have "(c - 1 + n) mod n = (n - 1) mod n" by (simp only:)
    also have "\<dots> = n - 1" using assms by (intro mod_pos_pos_trivial) simp_all
    finally show ?thesis using b True assms by simp
  next
    case False
    then have "(c - 1 + n) mod n = c - 1" using assms by simp
    then show ?thesis using b by simp
  qed
qed

lemma vertical_keydown_other:
  "k \<noteq> ''ArrowUp'' \<Longrightarrow> k \<noteq> ''ArrowDown'' \<Longrightarrow> (vertical_keydown k ^^ n) w = w"
  by (induction n) (simp_all add: vertical_keydown_def)

lemma keydown_right:
  "isOpen (lightbox w) \<Longrightarrow> keydown ''ArrowRight'' w = nextSlide (Lightbox_next w)"
  by (simp add: keydown_def vertical_keydown_other handleKeyboardNavigation_def
      handleKeyboard_def)

lemma keydown_left:
  "isOpen (lightbox w) \<Longrightarrow> keydown ''ArrowLeft'' w = prevSlide (Lightbox_prev w)"
  by (simp add: keydown_def vertical_keydown_other handleKeyboardNavigation_def
      handleKeyboard_def)

lemma landscapes_Lightbox [simp]:
  "landscapes (Lightbox_next w) = landscapes w"
  "landscapes (Lightbox_prev w) = landscapes w"
  by (simp_all add: landscapes_def)

lemma gallery_after_both:
  "gallery (nextSlide (Lightbox_next w)) = gallery (nextSlide w)"
  "gallery (prevSlide (Lightbox_prev w)) = gallery (prevSlide w)"
  by (simp_all add: nextSlide_gallery prevSlide_gallery)

section \<open>The invariants in every state the page reaches\<close>

lemma same_refs_refl [simp]: "same_refs w w"
  by (simp add: same_refs_def)

lemma same_refs_trans: "same_refs u v \<Longrightarrow> same_refs v w \<Longrightarrow> same_refs u w"
  by (simp add: same_refs_def)

lemma same_timer_refl [simp]: "same_timer w w"
  by (simp add: same_timer_def)

lemma same_timer_trans: "same_timer u v \<Longrightarrow> same_timer v w \<Longrightarrow> same_timer u w"
  by (simp add: same_timer_def)

lemma refs_ok_same: "refs_ok w \<Longrightarrow> same_refs v w \<Longrightarrow> refs_ok v"
  by (simp add: refs_ok_def same_refs_def)

lemma timer_ok_same: "timer_ok w \<Longrightarrow> same_timer v w \<Longrightarrow> timer_ok v"
  by (simp add: timer_ok_def same_timer_def)

lemma funpow_same_refs:
  "(\<And>w. same_refs (f w) w) \<Longrightarrow> same_refs ((f ^^ n) w) w"
  by (induction n) (auto intro: same_refs_trans)

lemma funpow_same_timer:
  "(\<And>w. same_timer (f w) w) \<Longrightarrow> same_timer ((f ^^ n) w) w"
  by (induction n) (auto intro: same_timer_trans)

lemma slides_same [simp]:
  "same_refs (nextSlide w) w" "same_refs (prevSlide w) w"
  "same_timer (nextSlide w) w" "same_timer (prevSlide w) w"
  by (simp_all add: same_refs_def same_timer_def nextSlide_gallery prevSlide_gallery)

lemma play_same_refs [simp]:
  "same_refs (startSlideShow w) w" "same_refs (stopSlideShow w) w"
  "same_refs (togglePlay w) w"
  by (simp_all add: same_refs_def startSlideShow_def stopSlideShow_def togglePlay_def Let_def
      split: option.splits)

lemma tick_same [simp]: "same_refs (tick h w) w" "same_timer (tick h w) w"
  by (simp_all add: tick_def)

lemma navigate_same [simp]:
  "same_refs (navigateVerticalGallery direction w) w"
  "same_timer (navigateVerticalGallery direction w) w"
  by (simp_all add: same_refs_def same_timer_def navigateVerticalGallery_def
      updateVerticalGalleryItems_def Let_def split: option.splits)

lemma vertical_keydown_same [simp]:
  "same_refs (vertical_keydown k w) w" "same_timer (vertical_keydown k w) w"
  by (simp_all add: vertical_keydown_def)

lemma Lightbox_close_frame [simp]:
  "arrays (Lightbox_close w) = arrays w"
  "gallery (Lightbox_close w) = gallery w"
  "intervals (Lightbox_close w) = intervals w"
  "currentWallpapers (lightbox (Lightbox_close w)) = currentWallpapers (lightbox w)"
  by (simp_all add: Lightbox_close_def)

lemma Lightbox_same [simp]:
  "same_refs (Lightbox_next w) w" "same_refs (Lightbox_prev w) w"
  "same_refs (Lightbox_close w) w"
  "same_timer (Lightbox_next w) w" "same_timer (Lightbox_prev w) w"
  "same_timer (Lightbox_close w) w"
  by (simp_all add: same_refs_def same_timer_def Lightbox_next_lightbox Lightbox_prev_lightbox)

lemma handleKeyboard_same [simp]:
  "same_refs (handleKeyboard k w) w" "same_timer (handleKeyboard k w) w"
  by (simp_all add: handleKeyboard_def)

lemma handleKeyboardNavigation_same_refs [simp]:
  "same_refs (handleKeyboardNavigation k w) w"
  by (simp add: handleKeyboardNavigation_def)

lemma timer_ok_handleKeyboardNavigation:
  "timer_ok w \<Longrightarrow> timer_ok (handleKeyboardNavigation k w)"
  by (auto simp: handleKeyboardNavigation_def timer_ok_toggle intro: timer_ok_same)

lemma keydown_same_refs [simp]: "same_refs (keydown k w) w"
proof -
  have a: "same_refs (handleKeyboardNavigation k (handleKeyboard k w)) w"
    by (rule same_refs_trans [of _ "handleKeyboard k w"]) simp_all
  have "same_refs ((vertical_keydown k ^^ n) v) v" for n v
    by (rule funpow_same_refs) simp
  then show ?thesis unfolding keydown_def using a by (rule same_refs_trans)
qed

lemma timer_ok_keydown: "timer_ok w \<Longrightarrow> timer_ok (keydown k w)"
proof -
  assume "timer_ok w"
  then have "timer_ok (handleKeyboard k w)" by (rule timer_ok_same) simp
  then have a: "timer_ok (handleKeyboardNavigation k (handleKeyboard k w))"
    by (rule timer_ok_handleKeyboardNavigation)
  have "same_timer ((vertical_keydown k ^^ n) v) v" for n v
    by (rule funpow_same_timer) simp
  with a show ?thesis unfolding keydown_def by (rule timer_ok_same)
qed

lemma settings_same [simp]:
  "same_refs (selectAnimation ty a w) w" "same_timer (selectAnimation ty a w) w"
  "same_refs (saveSettings w) w" "same_timer (saveSettings w) w"
  by (simp_all add: same_refs_def same_timer_def selectAnimation_def saveSettings_def
      saveToJSON_settings_def log_event_def)

lemma openLightbox_same_timer [simp]: "same_timer (openLightbox i ty w) w"
  by (simp add: same_timer_def)

lemma addWallpaper_same_timer: "same_timer (snd (addWallpaper f w)) w"
proof (cases "record_of f")
  case None
  then obtain e where "addWallpaper f w = (Inl e, log_event (ConsoleError ''addWallpaper'') w)"
    using addWallpaper_failed by blast
  then show ?thesis by (simp add: same_timer_def)
next
  case (Some x)
  then show ?thesis by (simp add: addWallpaper_decoded same_timer_def)
qed

lemma import_files_same_timer: "same_timer (snd (import_files fs w)) w"
proof (induction fs arbitrary: w)
  case Nil
  show ?case by simp
next
  case (Cons f fs)
  show ?case
  proof (cases "isImage f")
    case False
    with Cons show ?thesis by simp
  next
    case True
    show ?thesis
    proof (cases "addWallpaper f w")
      case (Pair res v)
      with addWallpaper_same_timer [of f w] have v: "same_timer v w" by simp
      show ?thesis
      proof (cases res)
        case (Inl e)
        with Pair True v show ?thesis by simp
      next
        case (Inr x)
        with Pair True have "import_files (f # fs) w = import_files fs v" by simp
        with Cons [of v] v show ?thesis by (auto intro: same_timer_trans)
      qed
    qed
  qed
qed

lemma handleFileImport_same_timer: "same_timer (handleFileImport fs w) w"
proof (cases "length fs = 0")
  case True
  then show ?thesis by (simp add: handleFileImport_def)
next
  case False
  have s: "same_timer (showLoading w) w" by (simp add: same_timer_def)
  show ?thesis
  proof (cases "import_files fs (showLoading w)")
    case (Pair res v)
    with import_files_same_timer [of fs "showLoading w"] s
    have v: "same_timer v w" by (auto intro: same_timer_trans)
    show ?thesis
    proof (cases res)
      case None
      then have "handleFileImport fs w = hideLoading (renderGallery (saveWallpapers v))"
        using False Pair by (simp add: handleFileImport_def)
      then show ?thesis using v by (simp add: same_timer_def)
    next
      case (Some e)
      then have "handleFileImport fs w
          = hideLoading (log_event (ConsoleError ''handleFileImport'') v)"
        using False Pair by (simp add: handleFileImport_def)
      then show ?thesis using v by (simp add: same_timer_def)
    qed
  qed
qed

lemma refs_ok_step: "refs_ok w \<Longrightarrow> refs_ok (step a w)"
proof (cases a)
  case (FilesChosen fs)
  assume "refs_ok w"
  then show ?thesis using FilesChosen handleFileImport_pins by simp
next
  case (ClickItem i)
  assume "refs_ok w"
  then show ?thesis using ClickItem by (simp add: click_item_def refs_ok_openLightbox)
next
  case (ClickGalleryArrow direction)
  assume r: "refs_ok w"
  have "same_refs ((navigateVerticalGallery direction ^^ n) v) v" for n v
    by (rule funpow_same_refs) simp
  with r have "refs_ok ((navigateVerticalGallery direction ^^ nav_listeners w) w)"
    by (rule refs_ok_same)
  then show ?thesis using ClickGalleryArrow by simp
qed (auto intro: refs_ok_same)

lemma timer_ok_step: "timer_ok w \<Longrightarrow> timer_ok (step a w)"
proof (cases a)
  case (FilesChosen fs)
  assume "timer_ok w"
  then show ?thesis using FilesChosen handleFileImport_same_timer
    by (auto intro: timer_ok_same)
next
  case ClickPlay
  assume "timer_ok w"
  then show ?thesis using ClickPlay by (simp add: timer_ok_toggle)
next
  case (KeyDown k)
  assume "timer_ok w"
  then show ?thesis using KeyDown by (simp add: timer_ok_keydown)
next
  case (ClickItem i)
  assume "timer_ok w"
  then show ?thesis using ClickItem by (auto simp: click_item_def intro: timer_ok_same)
next
  case (ClickGalleryArrow direction)
  assume r: "timer_ok w"
  have "same_timer ((navigateVerticalGallery direction ^^ n) v) v" for n v
    by (rule funpow_same_timer) simp
  with r have "timer_ok ((navigateVerticalGallery direction ^^ nav_listeners w) w)"
    by (rule timer_ok_same)
  then show ?thesis using ClickGalleryArrow by simp
qed (auto intro: timer_ok_same)

lemma invariants_run:
  "refs_ok w \<Longrightarrow> refs_ok (run as w)"
  "timer_ok w \<Longrightarrow> timer_ok (run as w)"
  unfolding run_def
  by (induction as arbitrary: w) (simp_all add: refs_ok_step timer_ok_step)

lemma invariants_reached:
  "refs_ok (run as (initComponents (fresh_page pg sw ss thr)))"
  "timer_ok (run as (initComponents (fresh_page pg sw ss thr)))"
  by (simp_all add: invariants_run refs_ok_initComponents timer_ok_initComponents)
section \<open>The claims\<close>

text \<open>
  C6. For a list of length \<open>N \<ge> 1\<close> and a cursor \<open>c\<close> in \<open>[0, N)\<close>: \<open>N\<close> times
  \<open>next\<close> brings the cursor back to \<open>c\<close>, and \<open>prev\<close> right after \<open>next\<close> does too, for
  the slideshow over the landscape list and for the lightbox over its pinned list.
\<close>

theorem cyclic_cursor:
  assumes "N \<ge> 1" "0 \<le> c" "c < int N"
  shows "(length (landscapes w) = N \<and> currentSlideIndex (gallery w) = c \<longrightarrow>
            currentSlideIndex (gallery ((nextSlide ^^ N) w)) = c \<and>
            currentSlideIndex (gallery (prevSlide (nextSlide w))) = c)
       \<and> (length (getCurrentWallpapers w) = N \<and> currentIndex (lightbox w) = c \<longrightarrow>
            currentIndex (lightbox ((Lightbox_next ^^ N) w)) = c \<and>
            currentIndex (lightbox (Lightbox_prev (Lightbox_next w))) = c)"
proof (intro conjI impI)
  assume a: "length (landscapes w) = N \<and> currentSlideIndex (gallery w) = c"
  with assms have "currentSlideIndex (gallery ((nextSlide ^^ N) w)) = (c + int N) mod int N"
    using nextSlide_iterate [of w N] by simp
  then show "currentSlideIndex (gallery ((nextSlide ^^ N) w)) = c" using assms by simp
  show "currentSlideIndex (gallery (prevSlide (nextSlide w))) = c"
    using a assms by (simp add: prevSlide_gallery nextSlide_gallery prev_after_next_arith)
next
  assume a: "length (getCurrentWallpapers w) = N \<and> currentIndex (lightbox w) = c"
  with assms have "currentIndex (lightbox ((Lightbox_next ^^ N) w)) = (c + int N) mod int N"
    using Lightbox_next_iterate [of w N] by simp
  then show "currentIndex (lightbox ((Lightbox_next ^^ N) w)) = c" using assms by simp
  show "currentIndex (lightbox (Lightbox_prev (Lightbox_next w))) = c"
    using a assms by (simp add: Lightbox_prev_lightbox Lightbox_next_lightbox prev_after_next_arith)
qed

lemma demo_facts:
  "length (landscapes demo) = 2" "currentSlideIndex (gallery demo) = 0"
  "length (getCurrentWallpapers demo) = 2" "currentIndex (lightbox demo) = 0"
  by code_simp+

theorem cyclic_cursor_witness:
  "length (landscapes demo) = 2 \<and> currentSlideIndex (gallery demo) = 0
   \<and> length (getCurrentWallpapers demo) = 2 \<and> currentIndex (lightbox demo) = 0
   \<and> currentSlideIndex (gallery ((nextSlide ^^ 2) demo)) = 0
   \<and> currentSlideIndex (gallery (prevSlide (nextSlide demo))) = 0
   \<and> currentIndex (lightbox ((Lightbox_next ^^ 2) demo)) = 0
   \<and> currentIndex (lightbox (Lightbox_prev (Lightbox_next demo))) = 0"
  using cyclic_cursor [of 2 0 demo] demo_facts by simp

text \<open>
  C2. For every record exactly one of the two predicates holds; after classification
  the two sub-lists together are as long as the master list, no record is in both, and
  records with different ids stay different across the two.
\<close>

theorem partition_totality:
  assumes "wallpapers (gallery w) < length (arrays w)"
  shows "isLandscape (width r) (height r) \<noteq> isPortrait (width r) (height r)
     \<and> master (classifyWallpapers w) = master w
     \<and> length (landscapes (classifyWallpapers w)) + length (portraits (classifyWallpapers w))
         = length (master (classifyWallpapers w))
     \<and> set (landscapes (classifyWallpapers w)) \<inter> set (portraits (classifyWallpapers w)) = {}
     \<and> (distinct (map id_w (master w)) \<longrightarrow>
           distinct (map id_w (landscapes (classifyWallpapers w) @ portraits (classifyWallpapers w))))"
proof -
  note c = classify_lists [OF assms]
  have "isLandscape (width r) (height r) \<noteq> isPortrait (width r) (height r)"
    by (rule exactly_one)
  moreover have "length (landscapes (classifyWallpapers w))
      + length (portraits (classifyWallpapers w)) = length (master (classifyWallpapers w))"
    unfolding c by (rule filter_split_length)
  moreover have "set (landscapes (classifyWallpapers w))
      \<inter> set (portraits (classifyWallpapers w)) = {}"
    unfolding c by (rule filter_split_disjoint)
  moreover have "distinct (map id_w (master w)) \<longrightarrow>
      distinct (map id_w (landscapes (classifyWallpapers w) @ portraits (classifyWallpapers w)))"
    unfolding c using filter_split_distinct by blast
  ultimately show ?thesis using c(1) by blast
qed

lemma w3_facts:
  "wallpapers (gallery w3) < length (arrays w3)"
  "distinct (map id_w (master w3))"
  "length (master w3) = 3"
  by code_simp+

theorem partition_totality_witness:
  "wallpapers (gallery w3) < length (arrays w3)
   \<and> distinct (map id_w (master w3))
   \<and> length (landscapes (classifyWallpapers w3)) + length (portraits (classifyWallpapers w3)) = 3
   \<and> set (landscapes (classifyWallpapers w3)) \<inter> set (portraits (classifyWallpapers w3)) = {}
   \<and> distinct (map id_w (landscapes (classifyWallpapers w3) @ portraits (classifyWallpapers w3)))"
  using partition_totality [of w3 "wp ''a.jpg'' 800 600"] w3_facts by metis

text \<open>
  C9, as the claim states it, fails: a record of width 5 and height 0 goes to the
  landscape list, not to the portrait list.
\<close>

theorem zero_height_landscape:
  "height (wp ''z.jpg'' 5 0) = 0
   \<and> wp ''z.jpg'' 5 0 \<in> set (master w_odd)
   \<and> wp ''z.jpg'' 5 0 \<in> set (landscapes (classifyWallpapers w_odd))
   \<and> wp ''z.jpg'' 5 0 \<notin> set (portraits (classifyWallpapers w_odd))"
  by code_simp

text \<open>
  C9, amended. Classification compares width and height of every record alike, zero
  and negative values too, and raises nothing: a record is in the portrait list exactly
  when its height is at least its width, and in the landscape list exactly when its
  width is greater.
\<close>

theorem classification_compares:
  assumes "wallpapers (gallery w) < length (arrays w)" and "r \<in> set (master w)"
  shows "(r \<in> set (portraits (classifyWallpapers w)) \<longleftrightarrow> height r \<ge> width r)
       \<and> (r \<in> set (landscapes (classifyWallpapers w)) \<longleftrightarrow> width r > height r)"
  using assms(2) unfolding classify_lists [OF assms(1)]
  by (simp add: isLandscape_def isPortrait_def)

lemma w_odd_facts:
  "wallpapers (gallery w_odd) < length (arrays w_odd)"
  "wp ''s.jpg'' 0 0 \<in> set (master w_odd)"
  "width (wp ''s.jpg'' 0 0) = 0"
  "height (wp ''s.jpg'' 0 0) = 0"
  by code_simp+

theorem classification_compares_witness:
  "wallpapers (gallery w_odd) < length (arrays w_odd)
   \<and> wp ''s.jpg'' 0 0 \<in> set (master w_odd)
   \<and> width (wp ''s.jpg'' 0 0) = 0 \<and> height (wp ''s.jpg'' 0 0) = 0
   \<and> wp ''s.jpg'' 0 0 \<in> set (portraits (classifyWallpapers w_odd))
   \<and> wp ''s.jpg'' 0 0 \<notin> set (landscapes (classifyWallpapers w_odd))"
  using classification_compares [of w_odd "wp ''s.jpg'' 0 0"] w_odd_facts by simp

text \<open>
  C1, as the claim states it, fails: of three accepted uploads whose second does not
  decode, the third is never added, and nothing is saved or rendered after the batch.
\<close>

theorem batch_stops_at_failure:
  "master (handleFileImport [photo ''a.jpg'' 800 600, broken ''b.png'', photo ''c.jpg'' 600 800] w0)
     = [wp ''a.jpg'' 800 600]
   \<and> wp ''c.jpg'' 600 800
       \<notin> set (master (handleFileImport
                 [photo ''a.jpg'' 800 600, broken ''b.png'', photo ''c.jpg'' 600 800] w0))
   \<and> events (handleFileImport [photo ''a.jpg'' 800 600, broken ''b.png'', photo ''c.jpg'' 600 800] w0)
     = [RenderedGallery, ConsoleError ''addWallpaper'', ConsoleError ''handleFileImport'']
   \<and> SavedWallpapers
       \<notin> set (events (handleFileImport
                 [photo ''a.jpg'' 800 600, broken ''b.png'', photo ''c.jpg'' 600 800] w0))
   \<and> stored_wallpapers
        (handleFileImport [photo ''a.jpg'' 800 600, broken ''b.png'', photo ''c.jpg'' 600 800] w0)
     = None"
proof -
  let ?W = "handleFileImport
              [photo ''a.jpg'' 800 600, broken ''b.png'', photo ''c.jpg'' 600 800] w0"
  have m: "master ?W = [wp ''a.jpg'' 800 600]"
    and e: "events ?W
        = [RenderedGallery, ConsoleError ''addWallpaper'', ConsoleError ''handleFileImport'']"
    and s: "stored_wallpapers ?W = None"
    using handleFileImport_failure
            [of "[photo ''a.jpg'' 800 600]" "broken ''b.png''" w0 "[photo ''c.jpg'' 600 800]"]
          accepted_names w0_facts
    by simp_all
  have "wp ''c.jpg'' 600 800 \<noteq> wp ''a.jpg'' 800 600"
    by (simp add: wp_def make_wallpaper_def)
  then show ?thesis unfolding m e s by simp
qed

text \<open>
  C1, amended. Uploads with a rejected extension are skipped. When every accepted upload
  decodes, the records of all of them are added in order, and after the batch the
  collection is saved once and rendered once. When an accepted upload fails to decode,
  the batch ends there: the records of the accepted uploads before it stay added, the
  failing upload and all after it add nothing, and nothing is saved or rendered.
\<close>

theorem batch_import:
  assumes "wallpapers (gallery w) < length (arrays w)"
  shows "(fs \<noteq> [] \<and> (\<forall>f \<in> set fs. isImage f \<longrightarrow> decodes f) \<longrightarrow>
            master (handleFileImport fs w) = master w @ records_of fs
          \<and> events (handleFileImport fs w)
               = events w @ SavedWallpapers
                   # (if storage_throws w then [ConsoleError ''saveToStorage''] else [])
                   @ [RenderedGallery])
       \<and> ((\<forall>f \<in> set pre. isImage f \<longrightarrow> decodes f) \<and> isImage bad \<and> \<not> decodes bad \<longrightarrow>
            master (handleFileImport (pre @ bad # post) w) = master w @ records_of pre
          \<and> events (handleFileImport (pre @ bad # post) w)
               = events w @ [ConsoleError ''addWallpaper'', ConsoleError ''handleFileImport'']
          \<and> stored_wallpapers (handleFileImport (pre @ bad # post) w) = stored_wallpapers w)"
  using handleFileImport_all [of fs w] handleFileImport_failure [of pre bad w post] assms
  by blast

theorem batch_import_witness:
  "wallpapers (gallery w0) < length (arrays w0)
   \<and> isImage (photo ''a.jpg'' 800 600) \<and> decodes (photo ''a.jpg'' 800 600)
   \<and> isImage (photo ''c.jpg'' 600 800) \<and> decodes (photo ''c.jpg'' 600 800)
   \<and> isImage (broken ''b.png'') \<and> \<not> decodes (broken ''b.png'')
   \<and> master (handleFileImport [photo ''a.jpg'' 800 600, photo ''c.jpg'' 600 800] w0)
       = [wp ''a.jpg'' 800 600, wp ''c.jpg'' 600 800]
   \<and> events (handleFileImport [photo ''a.jpg'' 800 600, photo ''c.jpg'' 600 800] w0)
       = [RenderedGallery, SavedWallpapers, RenderedGallery]
   \<and> master (handleFileImport [photo ''a.jpg'' 800 600, broken ''b.png'', photo ''c.jpg'' 600 800] w0)
       = [wp ''a.jpg'' 800 600]
   \<and> events (handleFileImport [photo ''a.jpg'' 800 600, broken ''b.png'', photo ''c.jpg'' 600 800] w0)
       = [RenderedGallery, ConsoleError ''addWallpaper'', ConsoleError ''handleFileImport'']"
  using batch_import [of w0 "[photo ''a.jpg'' 800 600, photo ''c.jpg'' 600 800]"
          "[photo ''a.jpg'' 800 600]" "broken ''b.png''" "[photo ''c.jpg'' 600 800]"]
        accepted_names w0_facts
  by simp

text \<open>
  C3. Once the gallery has opened the lightbox on its landscape or portrait list \<open>L\<close>,
  no later change of the collection (loading, adding, importing, classifying, saving,
  rendering, in any number and order) changes the lightbox: its list is still \<open>L\<close>, its
  fields are the same, and \<open>next\<close> and \<open>prev\<close> move over \<open>L\<close> as they would have before.
\<close>

theorem snapshot_pinning:
  assumes "refs_ok w"
    and "L = (if ty = ''landscape'' then landscapes w else portraits w)"
    and "L \<noteq> []"
    and "lightbox_el (lightbox w)" and "lightboxImage_el (lightbox w)"
  shows "getCurrentWallpapers (openLightbox i ty w) = L
       \<and> isOpen (lightbox (openLightbox i ty w))
       \<and> getCurrentWallpapers (store_run ops (openLightbox i ty w)) = L
       \<and> lightbox (store_run ops (openLightbox i ty w)) = lightbox (openLightbox i ty w)
       \<and> lightbox (Lightbox_next (store_run ops (openLightbox i ty w)))
           = lightbox (Lightbox_next (openLightbox i ty w))
       \<and> lightbox (Lightbox_prev (store_run ops (openLightbox i ty w)))
           = lightbox (Lightbox_prev (openLightbox i ty w))
       \<and> getCurrentWallpapers (Lightbox_next (store_run ops (openLightbox i ty w))) = L
       \<and> getCurrentWallpapers (Lightbox_prev (store_run ops (openLightbox i ty w))) = L"
proof -
  let ?o = "openLightbox i ty w"
  let ?r = "if ty = ''landscape'' then landscapeWallpapers (gallery w)
            else portraitWallpapers (gallery w)"
  have L: "arrays w ! ?r = L" using assms(2) by (simp add: landscapes_def portraits_def)
  then have ne: "arrays w ! ?r \<noteq> []" using assms(3) by simp
  note o = openLightbox_opened [OF refl ne assms(4) assms(5), of i]
  have p1: "getCurrentWallpapers ?o = L"
    using L by (simp only: getCurrentWallpapers_def o openLightbox_frame) simp
  have op: "isOpen (lightbox ?o)" by (simp only: o) simp
  note s = store_run_pins [OF refs_ok_openLightbox [OF assms(1), of i ty], of ops]
  then have p2: "getCurrentWallpapers (store_run ops ?o) = L"
    and lb: "lightbox (store_run ops ?o) = lightbox ?o"
    using p1 by simp_all
  have n: "lightbox (Lightbox_next (store_run ops ?o)) = lightbox (Lightbox_next ?o)"
    by (simp only: Lightbox_next_lightbox p1 p2 lb)
  have p: "lightbox (Lightbox_prev (store_run ops ?o)) = lightbox (Lightbox_prev ?o)"
    by (simp only: Lightbox_prev_lightbox p1 p2 lb)
  show ?thesis using p1 op p2 lb n p by simp
qed

lemma demo_pin_facts:
  "refs_ok w3"
  "landscapes w3 = [wp ''a.jpg'' 800 600, wp ''c.jpg'' 1000 500]"
  "lightbox_el (lightbox w3)"
  "lightboxImage_el (lightbox w3)"
  by code_simp+

lemma demo_pin_change:
  "landscapes (store_run [Add (photo ''d.jpg'' 900 500)] (openLightbox 0 ''landscape'' w3))
     = [wp ''a.jpg'' 800 600, wp ''c.jpg'' 1000 500, wp ''d.jpg'' 900 500]"
  by code_simp

lemma demo_pin_next:
  "currentIndex (lightbox (Lightbox_next (openLightbox 0 ''landscape'' w3))) = 1"
  by code_simp

theorem snapshot_pinning_witness:
  "refs_ok w3
   \<and> landscapes w3 = [wp ''a.jpg'' 800 600, wp ''c.jpg'' 1000 500]
   \<and> lightbox_el (lightbox w3) \<and> lightboxImage_el (lightbox w3)
   \<and> landscapes (store_run [Add (photo ''d.jpg'' 900 500)] (openLightbox 0 ''landscape'' w3))
       = [wp ''a.jpg'' 800 600, wp ''c.jpg'' 1000 500, wp ''d.jpg'' 900 500]
   \<and> getCurrentWallpapers
        (store_run [Add (photo ''d.jpg'' 900 500)] (openLightbox 0 ''landscape'' w3))
       = [wp ''a.jpg'' 800 600, wp ''c.jpg'' 1000 500]
   \<and> currentIndex (lightbox (Lightbox_next
        (store_run [Add (photo ''d.jpg'' 900 500)] (openLightbox 0 ''landscape'' w3)))) = 1"
  using snapshot_pinning [of w3 "[wp ''a.jpg'' 800 600, wp ''c.jpg'' 1000 500]" "''landscape''" 0
          "[Add (photo ''d.jpg'' 900 500)]"]
        demo_pin_facts demo_pin_change demo_pin_next
  by simp

text \<open>
  C8. From any state, stopping twice is the same as stopping once, and after a stop the
  gallery holds no timer handle. Where the running timers are the gallery's own, no
  timer runs after a stop, and however start, stop and toggle follow, at most one timer
  runs.
\<close>

theorem stop_idempotent:
  "stopSlideShow (stopSlideShow w) = stopSlideShow w
   \<and> slideInterval (gallery (stopSlideShow w)) = None
   \<and> (timer_ok w \<longrightarrow>
        intervals (stopSlideShow w) = []
      \<and> intervals (stopSlideShow (stopSlideShow w)) = []
      \<and> length (intervals (play_run ops (stopSlideShow w))) \<le> 1)"
proof -
  have "timer_ok w \<longrightarrow> length (intervals (play_run ops (stopSlideShow w))) \<le> 1"
    using timer_ok_at_most_one timer_ok_play_run timer_ok_stop by blast
  then show ?thesis using stop_twice [of w] stop_clears [of w] stop_no_timer [of w] by simp
qed

lemma w_playing_facts:
  "timer_ok w_playing"
  "intervals w_playing = [1]"
  "slideInterval (gallery w_playing) = Some 1"
  by code_simp+

theorem stop_idempotent_witness:
  "timer_ok w_playing
   \<and> intervals w_playing = [1]
   \<and> stopSlideShow (stopSlideShow w_playing) = stopSlideShow w_playing
   \<and> slideInterval (gallery (stopSlideShow w_playing)) = None
   \<and> intervals (stopSlideShow w_playing) = []
   \<and> intervals (stopSlideShow (stopSlideShow w_playing)) = []
   \<and> length (intervals (play_run [Start, Start, Toggle, Toggle, Toggle] (stopSlideShow w_playing))) \<le> 1"
  using stop_idempotent [of w_playing "[Start, Start, Toggle, Toggle, Toggle]"] w_playing_facts
  by simp

text \<open>
  C7. With nothing stored, a new \<open>AnimationManager\<close> has \<open>slide\<close> for both categories;
  and, \<open>localStorage\<close> working, selecting \<open>zoom\<close> for \<open>landscape\<close>, saving, and making
  a new \<open>AnimationManager\<close> gives \<open>zoom\<close> for \<open>landscape\<close> and \<open>slide\<close> for \<open>portrait\<close>.
\<close>

theorem settings_round_trip:
  "(stored_settings w = None \<longrightarrow>
      currentSettings (new_AnimationManager w)
        = [(''landscape'', ''slide''), (''portrait'', ''slide'')])
   \<and> (stored_settings w = None \<and> \<not> storage_throws w \<longrightarrow>
      currentSettings
        (new_AnimationManager
          (saveSettings (selectAnimation ''landscape'' ''zoom'' (new_AnimationManager w))))
        = [(''landscape'', ''zoom''), (''portrait'', ''slide'')])"
proof (intro conjI impI)
  assume "stored_settings w = None"
  then show "currentSettings (new_AnimationManager w)
      = [(''landscape'', ''slide''), (''portrait'', ''slide'')]"
    by (simp add: new_AnimationManager_defaults) (simp add: default_settings_def)
next
  assume a: "stored_settings w = None \<and> \<not> storage_throws w"
  let ?s = "selectAnimation ''landscape'' ''zoom'' (new_AnimationManager w)"
  have c: "currentSettings ?s = [(''landscape'', ''zoom''), (''portrait'', ''slide'')]"
    using a by (simp add: new_AnimationManager_defaults select_zoom)
  have t: "\<not> storage_throws ?s" using a by simp
  have "stored_settings (saveSettings ?s)
      = Some [(''landscape'', ''zoom''), (''portrait'', ''slide'')]"
    using saveSettings_stored(1) [OF t] c by simp
  moreover have "\<not> storage_throws (saveSettings ?s)"
    using t by (simp add: saveSettings_stored(2))
  ultimately show "currentSettings (new_AnimationManager (saveSettings ?s))
      = [(''landscape'', ''zoom''), (''portrait'', ''slide'')]"
    by (simp add: new_AnimationManager_stored spread_zoom)
qed

lemma w0_storage:
  "stored_settings w0 = None"
  "\<not> storage_throws w0"
  by code_simp+

theorem settings_round_trip_witness:
  "stored_settings w0 = None \<and> \<not> storage_throws w0
   \<and> currentSettings (new_AnimationManager w0)
       = [(''landscape'', ''slide''), (''portrait'', ''slide'')]
   \<and> currentSettings
        (new_AnimationManager
          (saveSettings (selectAnimation ''landscape'' ''zoom'' (new_AnimationManager w0))))
       = [(''landscape'', ''zoom''), (''portrait'', ''slide'')]"
  using settings_round_trip [of w0] w0_storage by simp

text \<open>
  C4, as the claim states it, fails: \<open>Lightbox.open\<close> with index 7 on a list of two
  leaves the cursor at 7.
\<close>

theorem open_keeps_index:
  "length (arrays w3 ! landscapeWallpapers (gallery w3)) = 2
   \<and> currentIndex (lightbox (Lightbox_open
         \<lparr>index_d = 7, type_d = ''landscape'',
          wallpapers_d = landscapeWallpapers (gallery w3)\<rparr> w3)) = 7
   \<and> \<not> currentIndex (lightbox (Lightbox_open
         \<lparr>index_d = 7, type_d = ''landscape'',
          wallpapers_d = landscapeWallpapers (gallery w3)\<rparr> w3))
       < int (length (getCurrentWallpapers (Lightbox_open
         \<lparr>index_d = 7, type_d = ''landscape'',
          wallpapers_d = landscapeWallpapers (gallery w3)\<rparr> w3)))
   \<and> isOpen (lightbox (Lightbox_open
         \<lparr>index_d = 7, type_d = ''landscape'',
          wallpapers_d = landscapeWallpapers (gallery w3)\<rparr> w3))"
  by code_simp

text \<open>
  C4, amended. \<open>Lightbox.open\<close> does nothing when the list is empty, and nothing when
  the page lacks one of the two lightbox elements. When the list is not empty and the
  page has the two elements, it takes the index as it is given, pins the list and sets
  \<open>isOpen\<close>. \<open>Gallery.openLightbox\<close> does the clamping before it asks the lightbox to
  open: on an empty list it changes nothing but the console, on a page that lacks one of
  the two elements it changes nothing at all, and otherwise the lightbox opens with its
  cursor at the clamped index, inside the list.
\<close>

theorem open_contract:
  "(arrays w ! wallpapers_d d = [] \<longrightarrow> Lightbox_open d w = w)
   \<and> (arrays w ! wallpapers_d d \<noteq> [] \<and> lightbox_el (lightbox w) \<and> lightboxImage_el (lightbox w) \<longrightarrow>
        currentIndex (lightbox (Lightbox_open d w)) = index_d d
      \<and> currentWallpapers (lightbox (Lightbox_open d w)) = wallpapers_d d
      \<and> getCurrentWallpapers (Lightbox_open d w) = arrays w ! wallpapers_d d
      \<and> isOpen (lightbox (Lightbox_open d w)))
   \<and> (L = (if ty = ''landscape'' then landscapes w else portraits w) \<and> L = [] \<longrightarrow>
        lightbox (openLightbox i ty w) = lightbox w
      \<and> arrays (openLightbox i ty w) = arrays w
      \<and> gallery (openLightbox i ty w) = gallery w
      \<and> page (openLightbox i ty w) = page w)
   \<and> (L = (if ty = ''landscape'' then landscapes w else portraits w) \<and> L \<noteq> []
        \<and> lightbox_el (lightbox w) \<and> lightboxImage_el (lightbox w) \<longrightarrow>
        currentIndex (lightbox (openLightbox i ty w)) = max 0 (min i (int (length L) - 1))
      \<and> 0 \<le> currentIndex (lightbox (openLightbox i ty w))
      \<and> currentIndex (lightbox (openLightbox i ty w)) < int (length L)
      \<and> getCurrentWallpapers (openLightbox i ty w) = L
      \<and> isOpen (lightbox (openLightbox i ty w)))
   \<and> (\<not> lightbox_el (lightbox w) \<or> \<not> lightboxImage_el (lightbox w) \<longrightarrow>
        Lightbox_open d w = w)
   \<and> (L = (if ty = ''landscape'' then landscapes w else portraits w) \<and> L \<noteq> []
        \<and> (\<not> lightbox_el (lightbox w) \<or> \<not> lightboxImage_el (lightbox w)) \<longrightarrow>
        openLightbox i ty w = w)"
proof (intro conjI impI)
  assume "arrays w ! wallpapers_d d = []"
  then show "Lightbox_open d w = w" by (simp add: Lightbox_open_rejected)
next
  assume "\<not> lightbox_el (lightbox w) \<or> \<not> lightboxImage_el (lightbox w)"
  then show "Lightbox_open d w = w" by (simp add: Lightbox_open_rejected)
next
  assume a: "L = (if ty = ''landscape'' then landscapes w else portraits w) \<and> L \<noteq> []
      \<and> (\<not> lightbox_el (lightbox w) \<or> \<not> lightboxImage_el (lightbox w))"
  let ?r = "if ty = ''landscape'' then landscapeWallpapers (gallery w)
            else portraitWallpapers (gallery w)"
  have L: "arrays w ! ?r = L" using a by (simp add: landscapes_def portraits_def)
  have ne: "arrays w ! ?r \<noteq> []" unfolding L using a by blast
  from a have m: "\<not> lightbox_el (lightbox w) \<or> \<not> lightboxImage_el (lightbox w)" by blast
  have "openLightbox i ty w
      = Lightbox_open \<lparr>index_d = max 0 (min i (int (length (arrays w ! ?r)) - 1)),
                       type_d = ty, wallpapers_d = ?r\<rparr> w"
    using ne by (simp add: openLightbox_def Let_def)
  also have "\<dots> = w" using m by (rule Lightbox_open_rejected [OF disjI2])
  finally show "openLightbox i ty w = w" .
next
  assume a: "arrays w ! wallpapers_d d \<noteq> [] \<and> lightbox_el (lightbox w)
      \<and> lightboxImage_el (lightbox w)"
  then have n: "length (arrays w ! wallpapers_d d) \<noteq> 0" by simp
  note o = Lightbox_open_opened [OF n]
  from a o show "currentIndex (lightbox (Lightbox_open d w)) = index_d d"
    and "currentWallpapers (lightbox (Lightbox_open d w)) = wallpapers_d d"
    and "getCurrentWallpapers (Lightbox_open d w) = arrays w ! wallpapers_d d"
    and "isOpen (lightbox (Lightbox_open d w))"
    by (simp_all add: getCurrentWallpapers_def)
next
  assume a: "L = (if ty = ''landscape'' then landscapes w else portraits w) \<and> L = []"
  then have "arrays w ! (if ty = ''landscape'' then landscapeWallpapers (gallery w)
                        else portraitWallpapers (gallery w)) = []"
    by (auto simp: landscapes_def portraits_def split: if_splits)
  then have e: "openLightbox i ty w = log_event (ConsoleWarn ''openLightbox'') w"
    by (rule openLightbox_empty)
  show "lightbox (openLightbox i ty w) = lightbox w"
    and "arrays (openLightbox i ty w) = arrays w"
    and "gallery (openLightbox i ty w) = gallery w"
    and "page (openLightbox i ty w) = page w"
    unfolding e by simp_all
next
  assume a: "L = (if ty = ''landscape'' then landscapes w else portraits w) \<and> L \<noteq> []
      \<and> lightbox_el (lightbox w) \<and> lightboxImage_el (lightbox w)"
  let ?r = "if ty = ''landscape'' then landscapeWallpapers (gallery w)
            else portraitWallpapers (gallery w)"
  have L: "arrays w ! ?r = L" using a by (simp add: landscapes_def portraits_def)
  have ne: "arrays w ! ?r \<noteq> []" unfolding L using a by blast
  from a have e1: "lightbox_el (lightbox w)" and e2: "lightboxImage_el (lightbox w)"
    by simp_all
  note o = openLightbox_opened [OF refl ne e1 e2, of i]
  have c: "currentIndex (lightbox (openLightbox i ty w)) = max 0 (min i (int (length L) - 1))"
    using L by (simp only: o) simp
  from a have "L \<noteq> []" by blast
  then have pos: "0 < int (length L)" by simp
  show "currentIndex (lightbox (openLightbox i ty w)) = max 0 (min i (int (length L) - 1))"
    by (rule c)
  show "0 \<le> currentIndex (lightbox (openLightbox i ty w))"
    unfolding c using clamp_in_range [OF pos] by simp
  show "currentIndex (lightbox (openLightbox i ty w)) < int (length L)"
    unfolding c using clamp_in_range [OF pos] by simp
  show "getCurrentWallpapers (openLightbox i ty w) = L"
    using L by (simp only: getCurrentWallpapers_def o openLightbox_frame) simp
  show "isOpen (lightbox (openLightbox i ty w))" by (simp only: o) simp
qed

lemma open_contract_facts:
  "arrays w0 ! wallpapers_d \<lparr>index_d = 3, type_d = ''portrait'',
      wallpapers_d = portraitWallpapers (gallery w0)\<rparr> = []"
  "portraits w0 = []"
  "arrays w3 ! wallpapers_d \<lparr>index_d = 7, type_d = ''landscape'',
      wallpapers_d = landscapeWallpapers (gallery w3)\<rparr>
     = [wp ''a.jpg'' 800 600, wp ''c.jpg'' 1000 500]"
  by code_simp+

lemma w_bare_facts:
  "\<not> lightbox_el (lightbox w_bare)"
  "\<not> lightboxImage_el (lightbox w_bare)"
  "landscapes w_bare = [wp ''a.jpg'' 800 600]"
  "arrays w_bare ! wallpapers_d \<lparr>index_d = 0, type_d = ''landscape'',
      wallpapers_d = landscapeWallpapers (gallery w_bare)\<rparr> = [wp ''a.jpg'' 800 600]"
  by code_simp+

theorem open_contract_witness:
  "portraits w0 = []
   \<and> Lightbox_open \<lparr>index_d = 3, type_d = ''portrait'',
        wallpapers_d = portraitWallpapers (gallery w0)\<rparr> w0 = w0
   \<and> lightbox (openLightbox 3 ''portrait'' w0) = lightbox w0
   \<and> landscapes w3 = [wp ''a.jpg'' 800 600, wp ''c.jpg'' 1000 500]
   \<and> lightbox_el (lightbox w3) \<and> lightboxImage_el (lightbox w3)
   \<and> currentIndex (lightbox (Lightbox_open \<lparr>index_d = 7, type_d = ''landscape'',
        wallpapers_d = landscapeWallpapers (gallery w3)\<rparr> w3)) = 7
   \<and> currentIndex (lightbox (openLightbox 7 ''landscape'' w3)) = 1
   \<and> getCurrentWallpapers (openLightbox 7 ''landscape'' w3)
       = [wp ''a.jpg'' 800 600, wp ''c.jpg'' 1000 500]
   \<and> isOpen (lightbox (openLightbox 7 ''landscape'' w3))
   \<and> \<not> lightbox_el (lightbox w_bare)
   \<and> landscapes w_bare = [wp ''a.jpg'' 800 600]
   \<and> arrays w_bare ! wallpapers_d \<lparr>index_d = 0, type_d = ''landscape'',
        wallpapers_d = landscapeWallpapers (gallery w_bare)\<rparr> = [wp ''a.jpg'' 800 600]
   \<and> Lightbox_open \<lparr>index_d = 0, type_d = ''landscape'',
        wallpapers_d = landscapeWallpapers (gallery w_bare)\<rparr> w_bare = w_bare
   \<and> openLightbox 0 ''landscape'' w_bare = w_bare"
proof -
  note empty = open_contract [of w0 "\<lparr>index_d = 3, type_d = ''portrait'',
            wallpapers_d = portraitWallpapers (gallery w0)\<rparr>" "[]" "''portrait''" 3]
  note full = open_contract [of w3 "\<lparr>index_d = 7, type_d = ''landscape'',
            wallpapers_d = landscapeWallpapers (gallery w3)\<rparr>"
            "[wp ''a.jpg'' 800 600, wp ''c.jpg'' 1000 500]" "''landscape''" 7]
  note bare = open_contract [of w_bare "\<lparr>index_d = 0, type_d = ''landscape'',
            wallpapers_d = landscapeWallpapers (gallery w_bare)\<rparr>"
            "[wp ''a.jpg'' 800 600]" "''landscape''" 0]
  have a: "portraits w0 = []
     \<and> Lightbox_open \<lparr>index_d = 3, type_d = ''portrait'',
          wallpapers_d = portraitWallpapers (gallery w0)\<rparr> w0 = w0
     \<and> lightbox (openLightbox 3 ''portrait'' w0) = lightbox w0"
    using empty open_contract_facts by simp
  have b: "landscapes w3 = [wp ''a.jpg'' 800 600, wp ''c.jpg'' 1000 500]
     \<and> lightbox_el (lightbox w3) \<and> lightboxImage_el (lightbox w3)
     \<and> currentIndex (lightbox (Lightbox_open \<lparr>index_d = 7, type_d = ''landscape'',
          wallpapers_d = landscapeWallpapers (gallery w3)\<rparr> w3)) = 7
     \<and> currentIndex (lightbox (openLightbox 7 ''landscape'' w3)) = 1
     \<and> getCurrentWallpapers (openLightbox 7 ''landscape'' w3)
         = [wp ''a.jpg'' 800 600, wp ''c.jpg'' 1000 500]
     \<and> isOpen (lightbox (openLightbox 7 ''landscape'' w3))"
    using full open_contract_facts demo_pin_facts by simp
  have c: "\<not> lightbox_el (lightbox w_bare)
     \<and> landscapes w_bare = [wp ''a.jpg'' 800 600]
     \<and> arrays w_bare ! wallpapers_d \<lparr>index_d = 0, type_d = ''landscape'',
          wallpapers_d = landscapeWallpapers (gallery w_bare)\<rparr> = [wp ''a.jpg'' 800 600]
     \<and> Lightbox_open \<lparr>index_d = 0, type_d = ''landscape'',
          wallpapers_d = landscapeWallpapers (gallery w_bare)\<rparr> w_bare = w_bare
     \<and> openLightbox 0 ''landscape'' w_bare = w_bare"
    using bare w_bare_facts by simp
  from a b c show ?thesis by blast
qed

text \<open>
  C10. While the lightbox is open, one \<open>ArrowRight\<close> or \<open>ArrowLeft\<close> keydown does to the
  lightbox what its \<open>next\<close> or \<open>prev\<close> does, and to the gallery what \<open>nextSlide\<close> or
  \<open>prevSlide\<close> does: the gallery's handler does not look at the lightbox. With two or
  more entries in each list and both cursors in range, both cursors change.
\<close>

theorem arrow_keys_reach_both:
  "(isOpen (lightbox w) \<longrightarrow>
      lightbox (keydown ''ArrowRight'' w) = lightbox (Lightbox_next w)
    \<and> gallery (keydown ''ArrowRight'' w) = gallery (nextSlide w)
    \<and> lightbox (keydown ''ArrowLeft'' w) = lightbox (Lightbox_prev w)
    \<and> gallery (keydown ''ArrowLeft'' w) = gallery (prevSlide w))
   \<and> (isOpen (lightbox w)
       \<and> 2 \<le> length (getCurrentWallpapers w)
       \<and> 0 \<le> currentIndex (lightbox w)
       \<and> currentIndex (lightbox w) < int (length (getCurrentWallpapers w))
       \<and> 2 \<le> length (landscapes w)
       \<and> 0 \<le> currentSlideIndex (gallery w)
       \<and> currentSlideIndex (gallery w) < int (length (landscapes w)) \<longrightarrow>
      currentIndex (lightbox (keydown ''ArrowRight'' w)) \<noteq> currentIndex (lightbox w)
    \<and> currentSlideIndex (gallery (keydown ''ArrowRight'' w)) \<noteq> currentSlideIndex (gallery w)
    \<and> currentIndex (lightbox (keydown ''ArrowLeft'' w)) \<noteq> currentIndex (lightbox w)
    \<and> currentSlideIndex (gallery (keydown ''ArrowLeft'' w)) \<noteq> currentSlideIndex (gallery w))"
proof (intro conjI impI)
  assume o: "isOpen (lightbox w)"
  show "lightbox (keydown ''ArrowRight'' w) = lightbox (Lightbox_next w)"
    by (simp add: keydown_right [OF o])
  show "gallery (keydown ''ArrowRight'' w) = gallery (nextSlide w)"
    by (simp add: keydown_right [OF o] gallery_after_both)
  show "lightbox (keydown ''ArrowLeft'' w) = lightbox (Lightbox_prev w)"
    by (simp add: keydown_left [OF o])
  show "gallery (keydown ''ArrowLeft'' w) = gallery (prevSlide w)"
    by (simp add: keydown_left [OF o] gallery_after_both)
next
  assume a: "isOpen (lightbox w)
       \<and> 2 \<le> length (getCurrentWallpapers w)
       \<and> 0 \<le> currentIndex (lightbox w)
       \<and> currentIndex (lightbox w) < int (length (getCurrentWallpapers w))
       \<and> 2 \<le> length (landscapes w)
       \<and> 0 \<le> currentSlideIndex (gallery w)
       \<and> currentSlideIndex (gallery w) < int (length (landscapes w))"
  then have o: "isOpen (lightbox w)" by simp
  from a have l: "2 \<le> int (length (getCurrentWallpapers w))"
    and g: "2 \<le> int (length (landscapes w))" by simp_all
  from a have lc: "0 \<le> currentIndex (lightbox w)"
    "currentIndex (lightbox w) < int (length (getCurrentWallpapers w))"
    and gc: "0 \<le> currentSlideIndex (gallery w)"
    "currentSlideIndex (gallery w) < int (length (landscapes w))" by simp_all
  note ml = cursor_moves [OF l lc]
  note mg = cursor_moves [OF g gc]
  from a have nl: "\<not> length (getCurrentWallpapers w) \<le> 1"
    and ng: "length (landscapes w) \<noteq> 0" by auto
  show "currentIndex (lightbox (keydown ''ArrowRight'' w)) \<noteq> currentIndex (lightbox w)"
    using ml(1) nl by (simp add: keydown_right [OF o] Lightbox_next_lightbox)
  show "currentSlideIndex (gallery (keydown ''ArrowRight'' w)) \<noteq> currentSlideIndex (gallery w)"
    using mg(1) ng by (simp add: keydown_right [OF o] gallery_after_both nextSlide_gallery)
  show "currentIndex (lightbox (keydown ''ArrowLeft'' w)) \<noteq> currentIndex (lightbox w)"
    using ml(2) nl by (simp add: keydown_left [OF o] Lightbox_prev_lightbox)
  show "currentSlideIndex (gallery (keydown ''ArrowLeft'' w)) \<noteq> currentSlideIndex (gallery w)"
    using mg(2) ng by (simp add: keydown_left [OF o] gallery_after_both prevSlide_gallery)
qed

lemma demo_open_facts:
  "isOpen (lightbox demo)"
  "currentIndex (lightbox (keydown ''ArrowRight'' demo)) = 1"
  "currentSlideIndex (gallery (keydown ''ArrowRight'' demo)) = 1"
  by code_simp+

theorem arrow_keys_reach_both_witness:
  "isOpen (lightbox demo)
   \<and> length (getCurrentWallpapers demo) = 2 \<and> currentIndex (lightbox demo) = 0
   \<and> length (landscapes demo) = 2 \<and> currentSlideIndex (gallery demo) = 0
   \<and> lightbox (keydown ''ArrowRight'' demo) = lightbox (Lightbox_next demo)
   \<and> gallery (keydown ''ArrowRight'' demo) = gallery (nextSlide demo)
   \<and> currentIndex (lightbox (keydown ''ArrowRight'' demo)) = 1
   \<and> currentSlideIndex (gallery (keydown ''ArrowRight'' demo)) = 1
   \<and> currentIndex (lightbox (keydown ''ArrowLeft'' demo)) \<noteq> 0
   \<and> currentSlideIndex (gallery (keydown ''ArrowLeft'' demo)) \<noteq> 0"
proof -
  have h: "isOpen (lightbox demo)
       \<and> 2 \<le> length (getCurrentWallpapers demo)
       \<and> 0 \<le> currentIndex (lightbox demo)
       \<and> currentIndex (lightbox demo) < int (length (getCurrentWallpapers demo))
       \<and> 2 \<le> length (landscapes demo)
       \<and> 0 \<le> currentSlideIndex (gallery demo)
       \<and> currentSlideIndex (gallery demo) < int (length (landscapes demo))"
    using demo_facts demo_open_facts by simp
  from arrow_keys_reach_both [of demo] h
  have "lightbox (keydown ''ArrowRight'' demo) = lightbox (Lightbox_next demo)
      \<and> gallery (keydown ''ArrowRight'' demo) = gallery (nextSlide demo)
      \<and> currentIndex (lightbox (keydown ''ArrowLeft'' demo)) \<noteq> currentIndex (lightbox demo)
      \<and> currentSlideIndex (gallery (keydown ''ArrowLeft'' demo))
          \<noteq> currentSlideIndex (gallery demo)"
    by blast
  then show ?thesis using demo_facts demo_open_facts by simp
qed

text \<open>
  C5. With exactly one landscape wallpaper the slideshow's \<open>nextSlide\<close> and \<open>prevSlide\<close>
  are not no-ops: the cursor stays at 0, but the transition runs on the one slide as
  both the outgoing and the incoming one, takes its \<open>active\<close> class away and schedules
  a clean-up. The lightbox over a list of one entry does nothing.
\<close>

theorem single_slide_transition:
  "length (landscapes w1) = 1
   \<and> currentSlideIndex (gallery w1) = 0
   \<and> screen_inner (page w1)
       = Some [\<lparr>classList = [''wallpaper-slide'', ''active''], data_index = Some 0\<rparr>]
   \<and> currentSlideIndex (gallery (nextSlide w1)) = 0
   \<and> screen_inner (page (nextSlide w1))
       = Some [\<lparr>classList = [''wallpaper-slide'', ''animation-slide'', ''prev''],
                data_index = Some 0\<rparr>]
   \<and> cleanups (nextSlide w1) = [0]
   \<and> screen_inner (page (prevSlide w1))
       = Some [\<lparr>classList = [''wallpaper-slide'', ''animation-slide'', ''next''],
                data_index = Some 0\<rparr>]
   \<and> nextSlide w1 \<noteq> w1
   \<and> prevSlide w1 \<noteq> w1
   \<and> length (getCurrentWallpapers (openLightbox 0 ''landscape'' w1)) = 1
   \<and> Lightbox_next (openLightbox 0 ''landscape'' w1) = openLightbox 0 ''landscape'' w1"
proof -
  have a: "length (landscapes w1) = 1" "currentSlideIndex (gallery w1) = 0"
    "screen_inner (page w1)
       = Some [\<lparr>classList = [''wallpaper-slide'', ''active''], data_index = Some 0\<rparr>]"
    by code_simp+
  have n: "currentSlideIndex (gallery (nextSlide w1)) = 0"
    "screen_inner (page (nextSlide w1))
       = Some [\<lparr>classList = [''wallpaper-slide'', ''animation-slide'', ''prev''],
                data_index = Some 0\<rparr>]"
    "cleanups (nextSlide w1) = [0]"
    by code_simp+
  have p: "screen_inner (page (prevSlide w1))
       = Some [\<lparr>classList = [''wallpaper-slide'', ''animation-slide'', ''next''],
                data_index = Some 0\<rparr>]"
    by code_simp
  have l: "length (getCurrentWallpapers (openLightbox 0 ''landscape'' w1)) = 1"
    by code_simp
  have d1: "nextSlide w1 \<noteq> w1"
  proof
    assume "nextSlide w1 = w1"
    then have "screen_inner (page (nextSlide w1)) = screen_inner (page w1)" by simp
    then show False unfolding n(2) a(3) by simp
  qed
  have d2: "prevSlide w1 \<noteq> w1"
  proof
    assume "prevSlide w1 = w1"
    then have "screen_inner (page (prevSlide w1)) = screen_inner (page w1)" by simp
    then show False unfolding p a(3) by simp
  qed
  have "Lightbox_next (openLightbox 0 ''landscape'' w1) = openLightbox 0 ''landscape'' w1"
    using l by (simp add: short_list_noops)
  with a n p l d1 d2 show ?thesis by simp
qed

end
